theory Spec2Isabelle
  imports Complex_Main
begin

section \<open>Python values, errors and the built-ins the code relies on\<close>

text \<open>
  The constructor of \<open>Readability\<close> inspects the dynamic type of its argument, so the
  argument is a value of the universe \<open>pyval\<close>: None, an integer, a string, a list, or a
  dictionary with string keys (kept as an association list in insertion order; a Python
  dictionary has no duplicate keys). A string is a list of characters and \<open>len\<close> counts
  them.

  A raised exception is the left summand of a sum type.
\<close>

datatype error = TypeError | IndexError | KeyError | AttributeError | UnboundLocalError

datatype pyval =
    PNone
  | PInt int
  | PStr string
  | PList "pyval list"
  | PDict "(string \<times> pyval) list"

definition ebind :: "error + 'a \<Rightarrow> ('a \<Rightarrow> error + 'b) \<Rightarrow> error + 'b" where
  "ebind m f = (case m of Inl e \<Rightarrow> Inl e | Inr v \<Rightarrow> f v)"

text \<open>\<open>emap f xs\<close>: apply a function that may raise to every element, left to right.\<close>

fun emap :: "('a \<Rightarrow> error + 'b) \<Rightarrow> 'a list \<Rightarrow> error + 'b list" where
  "emap f [] = Inr []"
| "emap f (x # xs) = ebind (f x) (\<lambda>y. ebind (emap f xs) (\<lambda>ys. Inr (y # ys)))"

text \<open>\<open>isinstance(v, list)\<close> and \<open>isinstance(v, str)\<close>.\<close>

fun is_list :: "pyval \<Rightarrow> bool" where
  "is_list (PList xs) = True"
| "is_list v = False"

fun is_str :: "pyval \<Rightarrow> bool" where
  "is_str (PStr s) = True"
| "is_str v = False"

text \<open>\<open>len(v)\<close>: defined on strings, lists and dictionaries, TypeError otherwise.\<close>

fun py_len :: "pyval \<Rightarrow> error + int" where
  "py_len (PStr s) = Inr (int (length s))"
| "py_len (PList xs) = Inr (int (length xs))"
| "py_len (PDict kvs) = Inr (int (length kvs))"
| "py_len v = Inl TypeError"

text \<open>
  \<open>for x in v\<close>: a string yields its one-character strings, a list its elements, a
  dictionary its keys; None and integers are not iterable.
\<close>

fun py_iter :: "pyval \<Rightarrow> error + pyval list" where
  "py_iter (PStr s) = Inr (map (\<lambda>c. PStr [c]) s)"
| "py_iter (PList xs) = Inr xs"
| "py_iter (PDict kvs) = Inr (map (\<lambda>kv. PStr (fst kv)) kvs)"
| "py_iter v = Inl TypeError"

text \<open>\<open>v[0]\<close> on a list or a string (IndexError when empty).\<close>

fun py_first :: "pyval \<Rightarrow> error + pyval" where
  "py_first (PList []) = Inl IndexError"
| "py_first (PList (x # xs)) = Inr x"
| "py_first (PStr []) = Inl IndexError"
| "py_first (PStr (c # cs)) = Inr (PStr [c])"
| "py_first (PDict kvs) = Inl KeyError"
| "py_first v = Inl TypeError"

text \<open>\<open>d[k]\<close> with a string key \<open>k\<close>.\<close>

fun py_getitem :: "pyval \<Rightarrow> string \<Rightarrow> error + pyval" where
  "py_getitem (PDict kvs) k = (case map_of kvs k of None \<Rightarrow> Inl KeyError | Some v \<Rightarrow> Inr v)"
| "py_getitem v k = Inl TypeError"

text \<open>
  \<open>d[k] = v\<close> on a dictionary kept in insertion order: an existing key keeps its place.
\<close>

fun dict_set :: "('k \<times> 'v) list \<Rightarrow> 'k \<Rightarrow> 'v \<Rightarrow> ('k \<times> 'v) list" where
  "dict_set [] k v = [(k, v)]"
| "dict_set (p # ps) k v = (if fst p = k then (k, v) # ps else p # dict_set ps k v)"

text \<open>\<open>' '.join(v)\<close>: every item produced by iterating \<open>v\<close> must be a string.\<close>

fun as_str :: "pyval \<Rightarrow> error + string" where
  "as_str (PStr s) = Inr s"
| "as_str v = Inl TypeError"

fun join_sp :: "string list \<Rightarrow> string" where
  "join_sp [] = []"
| "join_sp [w] = w"
| "join_sp (w # ws) = w @ '' '' @ join_sp ws"

definition py_join :: "pyval \<Rightarrow> error + string" where
  "py_join v = ebind (py_iter v) (\<lambda>els. ebind (emap as_str els) (\<lambda>ws. Inr (join_sp ws)))"

section \<open>The statistics snapshot and the session\<close>

text \<open>
  \<open>class Statistics: pass\<close> is an attribute bag that \<open>compile\<close> fills with six integer
  attributes.
\<close>

record Statistics =
  totalWords :: int
  totalLongWords :: int
  totalSentences :: int
  totalCharacters :: int
  totalSyllables :: int
  nbPolysyllables :: int

text \<open>
  The attributes of a \<open>Readability\<close> instance. An attribute that has not been assigned is
  \<open>None\<close> here: \<open>hasattr(self, a)\<close> is \<open>a self \<noteq> None\<close>, and reading it raises
  AttributeError. \<open>nlp\<close> is the spaCy pipeline seen through the one use the class makes
  of it, \<open>[[token.text for token in sent] for sent in self.nlp(s).sents]\<close>; the Python
  attribute is \<open>None\<close> when no pipeline was acquired.
\<close>

record Readability =
  lang :: string
  perplexity_processor :: string
  nlp :: "(string \<Rightarrow> string list list) option"
  content :: "pyval option"
  content_type :: "string option"
  classes :: "string list option"
  statistics :: "Statistics option"
  corpus_statistics :: "(string \<times> Statistics list) list option"

definition getattr :: "'a option \<Rightarrow> error + 'a" where
  "getattr a = (case a of None \<Rightarrow> Inl AttributeError | Some v \<Rightarrow> Inr v)"

section \<open>compile\<close>

text \<open>
  \<open>utils.syllablesplit\<close> is not part of the sources at hand: it is the parameter
  \<open>syl\<close>, a function from a token string to an integer. Applied to anything but a string
  it is taken to raise TypeError.
\<close>

definition syllablesplit :: "(string \<Rightarrow> int) \<Rightarrow> pyval \<Rightarrow> error + int" where
  "syllablesplit syl w = (case w of PStr s \<Rightarrow> Inr (syl s) | _ \<Rightarrow> Inl TypeError)"

text \<open>
  One round of the loop \<open>for sentence in text\<close>: the five running totals are updated in
  the order of the source.
\<close>

definition sentence_step ::
  "(string \<Rightarrow> int) \<Rightarrow> pyval \<Rightarrow> int \<times> int \<times> int \<times> int \<times> int \<Rightarrow>
   error + int \<times> int \<times> int \<times> int \<times> int" where
  "sentence_step syl sentence acc =
     (case acc of (tw, tlw, tc, ts, np) \<Rightarrow>
        ebind (py_len sentence) (\<lambda>n.
        ebind (py_iter sentence) (\<lambda>toks.
        ebind (emap py_len toks) (\<lambda>lens.
        ebind (emap (syllablesplit syl) toks) (\<lambda>syls.
          Inr (tw + n,
               tlw + int (length (filter (\<lambda>l. l > 6) lens)),
               tc + sum_list lens,
               ts + sum_list syls,
               np + sum_list (map (\<lambda>k. 1) (filter (\<lambda>k. k \<ge> 3) syls))))))))"

fun sentence_loop ::
  "(string \<Rightarrow> int) \<Rightarrow> pyval list \<Rightarrow> int \<times> int \<times> int \<times> int \<times> int \<Rightarrow>
   error + int \<times> int \<times> int \<times> int \<times> int" where
  "sentence_loop syl [] acc = Inr acc"
| "sentence_loop syl (s # ss) acc = ebind (sentence_step syl s acc) (sentence_loop syl ss)"

text \<open>The body shared, by copy and paste, by the text branch and the corpus branch.\<close>

definition text_statistics :: "(string \<Rightarrow> int) \<Rightarrow> pyval \<Rightarrow> error + Statistics" where
  "text_statistics syl text =
     ebind (py_len text) (\<lambda>nsent.
     ebind (py_iter text) (\<lambda>sentences.
     ebind (sentence_loop syl sentences (0, 0, 0, 0, 0)) (\<lambda>acc.
       case acc of (tw, tlw, tc, ts, np) \<Rightarrow>
         Inr \<lparr>totalWords = tw, totalLongWords = tlw, totalSentences = nsent,
              totalCharacters = tc, totalSyllables = ts, nbPolysyllables = np\<rparr>)))"

text \<open>
  The corpus branch: \<open>for level in self.classes: stats[level] = []; for text in
  self.content[level]: ... stats[level].append(statistics)\<close>.
\<close>

fun level_loop ::
  "(string \<Rightarrow> int) \<Rightarrow> Readability \<Rightarrow> string list \<Rightarrow> (string \<times> Statistics list) list \<Rightarrow>
   error + (string \<times> Statistics list) list" where
  "level_loop syl self [] stats = Inr stats"
| "level_loop syl self (level # levels) stats =
     ebind (getattr (content self)) (\<lambda>cont.
     ebind (py_getitem cont level) (\<lambda>texts.
     ebind (py_iter texts) (\<lambda>ts.
     ebind (emap (text_statistics syl) ts) (\<lambda>sts.
       level_loop syl self levels (dict_set stats level sts)))))"

text \<open>What \<open>compile\<close> returns: \<open>self\<close>, or the integer of its last line.\<close>

datatype compile_result = ReturnsSelf | ReturnsInt int

definition compile ::
  "(string \<Rightarrow> int) \<Rightarrow> Readability \<Rightarrow> error + compile_result \<times> Readability" where
  "compile syl self =
     ebind (getattr (content_type self)) (\<lambda>ct.
       if ct = ''text'' then
         ebind (getattr (content self)) (\<lambda>cont.
         ebind (text_statistics syl cont) (\<lambda>st.
           Inr (ReturnsSelf, self\<lparr>statistics := Some st\<rparr>)))
       else if ct = ''corpus'' then
         ebind (getattr (classes self)) (\<lambda>cls.
         ebind (level_loop syl self cls []) (\<lambda>stats.
           Inr (ReturnsSelf, self\<lparr>corpus_statistics := Some stats\<rparr>)))
       else Inr (ReturnsInt 0, self))"

section \<open>Canonical content\<close>

text \<open>
  A canonical Text is a list of sentences, each a list of token strings; a canonical corpus
  maps each class label to a list of canonical Texts. \<open>text_val\<close> and \<open>corpus_val\<close>
  are their Python values, \<open>text_of\<close> reads a canonical Text back and fails on any value
  that is not one.
\<close>

definition text_val :: "string list list \<Rightarrow> pyval" where
  "text_val t = PList (map (\<lambda>s. PList (map PStr s)) t)"

definition corpus_val :: "(string \<times> string list list list) list \<Rightarrow> pyval" where
  "corpus_val c = PDict (map (\<lambda>kv. (fst kv, PList (map text_val (snd kv)))) c)"

fun str_of :: "pyval \<Rightarrow> string option" where
  "str_of (PStr s) = Some s"
| "str_of v = None"

fun sentence_of :: "pyval \<Rightarrow> string list option" where
  "sentence_of (PList ws) = those (map str_of ws)"
| "sentence_of v = None"

fun text_of :: "pyval \<Rightarrow> string list list option" where
  "text_of (PList ss) = those (map sentence_of ss)"
| "text_of v = None"

section \<open>The six totals in the words of the specification\<close>

text \<open>
  Section 4.2 of the specification states what the snapshot of a Text holds: the sum of the
  per-sentence token counts, the number of tokens longer than six characters, the number
  of sentences, the sum of the token lengths, the sum of the syllable estimates, and the
  number of tokens whose estimate is at least three; for a corpus, the same for every text
  of every class, in order. \<open>aggregate\<close> and \<open>aggregate_corpus\<close> write this down on
  canonical content; \<open>compile\<close>, translated from the source above, is compared with
  them.
\<close>

definition aggregate :: "(string \<Rightarrow> int) \<Rightarrow> string list list \<Rightarrow> Statistics" where
  "aggregate syl t =
     \<lparr>totalWords = sum_list (map (\<lambda>s. int (length s)) t),
      totalLongWords = int (length (filter (\<lambda>w. length w > 6) (concat t))),
      totalSentences = int (length t),
      totalCharacters = sum_list (map (\<lambda>w. int (length w)) (concat t)),
      totalSyllables = sum_list (map syl (concat t)),
      nbPolysyllables = int (length (filter (\<lambda>w. syl w \<ge> 3) (concat t)))\<rparr>"

definition aggregate_corpus ::
  "(string \<Rightarrow> int) \<Rightarrow> (string \<times> string list list list) list \<Rightarrow>
   (string \<times> Statistics list) list" where
  "aggregate_corpus syl c = map (\<lambda>kv. (fst kv, map (aggregate syl) (snd kv))) c"

section \<open>The constructor\<close>

text \<open>
  \<open>spacy.load('fr_core_news_sm')\<close> is the parameter \<open>fr_core_news_sm\<close>; loading (or
  downloading and loading) is taken to succeed. Any other language or processor name leaves
  \<open>self.nlp = None\<close>, and calling it raises TypeError.

  Of the printed lines only the two warnings are kept; the constructor returns the new
  instance together with the warnings it printed.
\<close>

definition acquire_nlp ::
  "(string \<Rightarrow> string list list) \<Rightarrow> string \<Rightarrow> string \<Rightarrow> (string \<Rightarrow> string list list) option" where
  "acquire_nlp fr_core_news_sm lang' nlp_name =
     (if lang' = ''fr'' \<and> nlp_name = ''spacy_sm'' then Some fr_core_news_sm else None)"

definition call_nlp :: "(string \<Rightarrow> string list list) option \<Rightarrow> string \<Rightarrow> error + string list list" where
  "call_nlp pipeline s = (case pipeline of None \<Rightarrow> Inl TypeError | Some f \<Rightarrow> Inr (f s))"

definition warning_string :: string where
  "warning_string =
     ''WARNING : Text length is less than 100 words, some scores will be inaccurate.''"

definition warning_tokens :: string where
  "warning_tokens =
     ''WARNING : Text length is less than 100 words, scores will be inaccurate and meaningless.''"

text \<open>\<open>isinstance(content, str)\<close>: \<open>nb_words += len(sentence)\<close> for every sentence.\<close>

definition nb_words_string :: "string list list \<Rightarrow> int" where
  "nb_words_string sentences = sum_list (map (\<lambda>sentence. int (length sentence)) sentences)"

definition init_string :: "Readability \<Rightarrow> string \<Rightarrow> error + Readability \<times> string list" where
  "init_string self s =
     ebind (call_nlp (nlp self) s) (\<lambda>sentences.
       Inr (self\<lparr>content_type := Some ''text'', content := Some (text_val sentences)\<rparr>,
            if nb_words_string sentences < 101 then [warning_string] else []))"

text \<open>
  \<open>isinstance(content, list)\<close> with no list among the elements: the inner loop
  \<open>for token in sentence: nb_words += len(sentence)\<close> adds the sentence length once for
  every token of the sentence.
\<close>

definition nb_words_tokens :: "string list list \<Rightarrow> int" where
  "nb_words_tokens sentences =
     sum_list (map (\<lambda>sentence. sum_list (map (\<lambda>token. int (length sentence)) sentence)) sentences)"

definition init_tokens :: "Readability \<Rightarrow> pyval \<Rightarrow> error + Readability \<times> string list" where
  "init_tokens self cont =
     ebind (py_join cont) (\<lambda>joined.
     ebind (call_nlp (nlp self) joined) (\<lambda>sentences.
       Inr (self\<lparr>content_type := Some ''text'', content := Some (text_val sentences)\<rparr>,
            if nb_words_tokens sentences < 101 then [warning_tokens] else [])))"

text \<open>
  The last branch. \<open>content[list(content.keys())[0]]\<close> is the value of the first item
  (IndexError on an empty dictionary); each failed test falls out of the constructor with
  nothing assigned, and so does a value that is not a dictionary.
\<close>

definition init_corpus :: "Readability \<Rightarrow> pyval \<Rightarrow> error + Readability \<times> string list" where
  "init_corpus self cont =
     (case cont of
        PDict kvs \<Rightarrow>
          (case kvs of
             [] \<Rightarrow> Inl IndexError
           | kv # rest \<Rightarrow>
               if is_list (snd kv) then
                 ebind (py_first (snd kv)) (\<lambda>text0.
                   if is_list text0 then
                     ebind (py_first text0) (\<lambda>sentence0.
                       if is_list sentence0 then
                         Inr (self\<lparr>content_type := Some ''corpus'', content := Some cont,
                                   classes := Some (map fst kvs)\<rparr>, [])
                       else Inr (self, []))
                   else Inr (self, []))
               else Inr (self, []))
      | _ \<Rightarrow> Inr (self, []))"

text \<open>The instance once \<open>lang\<close>, \<open>perplexity_processor\<close> and \<open>nlp\<close> are assigned.\<close>

definition blank ::
  "(string \<Rightarrow> string list list) \<Rightarrow> string \<Rightarrow> string \<Rightarrow> string \<Rightarrow> Readability" where
  "blank fr_core_news_sm lang' nlp_name ppl =
     \<lparr>lang = lang', perplexity_processor = ppl,
      nlp = acquire_nlp fr_core_news_sm lang' nlp_name,
      content = None, content_type = None, classes = None,
      statistics = None, corpus_statistics = None\<rparr>"

definition init ::
  "(string \<Rightarrow> string list list) \<Rightarrow> pyval \<Rightarrow> string \<Rightarrow> string \<Rightarrow> string \<Rightarrow>
   error + Readability \<times> string list" where
  "init fr_core_news_sm cont lang' nlp_name ppl =
     (let self = blank fr_core_news_sm lang' nlp_name ppl
      in case cont of
           PStr s \<Rightarrow> init_string self s
         | _ \<Rightarrow>
           ebind (py_iter cont) (\<lambda>els.
             if list_ex is_list els then
               Inr (self\<lparr>content_type := Some ''text'', content := Some cont\<rparr>, [])
             else if is_list cont then init_tokens self cont
             else init_corpus self cont))"

section \<open>The score functions\<close>

text \<open>
  Modelled from the spec: the module \<open>stats/common_scores.py\<close> (\<open>GFI_score\<close>,
  \<open>ARI_score\<close>, \<open>FRE_score\<close>, \<open>FKGL_score\<close>, \<open>SMOG_score\<close>, \<open>REL_score\<close>) is not
  among the sources. The definitions of this section follow section 4.3 of the
  specification: the formula table over W, S, LW, C, SYL and PSYL, a failure value when S
  or W is zero, and the dual-mode contract (a supplied snapshot is used directly; without
  one the Statistics Aggregator, \<open>aggregate\<close>, is run on the text). Python floats are
  idealised as real numbers. The constants of REL are not given by the specification and
  are parameters.
\<close>

datatype score_value = UndefinedFormula | Value real

definition words_per_sentence :: "Statistics \<Rightarrow> real" where
  "words_per_sentence st = real_of_int (totalWords st) / real_of_int (totalSentences st)"

definition GFI_formula :: "Statistics \<Rightarrow> real" where
  "GFI_formula st =
     0.4 * (words_per_sentence st
            + 100 * (real_of_int (totalLongWords st) / real_of_int (totalWords st)))"

definition ARI_formula :: "Statistics \<Rightarrow> real" where
  "ARI_formula st =
     4.71 * (real_of_int (totalCharacters st) / real_of_int (totalWords st))
     + 0.5 * words_per_sentence st - 21.43"

definition FRE_formula :: "Statistics \<Rightarrow> real" where
  "FRE_formula st =
     206.835 - 1.015 * words_per_sentence st
     - 84.6 * (real_of_int (totalSyllables st) / real_of_int (totalWords st))"

definition FKGL_formula :: "Statistics \<Rightarrow> real" where
  "FKGL_formula st =
     0.39 * words_per_sentence st
     + 11.8 * (real_of_int (totalSyllables st) / real_of_int (totalWords st)) - 15.59"

definition SMOG_formula :: "Statistics \<Rightarrow> real" where
  "SMOG_formula st =
     3.1291 + 1.0430 * sqrt (30 * (real_of_int (nbPolysyllables st) / real_of_int (totalSentences st)))"

definition REL_formula :: "real \<times> real \<times> real \<Rightarrow> Statistics \<Rightarrow> real" where
  "REL_formula k st =
     (case k of (k0, k1, k2) \<Rightarrow>
        k0 - k1 * words_per_sentence st
        - k2 * (real_of_int (totalSyllables st) / real_of_int (totalWords st)))"

definition guarded :: "(Statistics \<Rightarrow> real) \<Rightarrow> Statistics \<Rightarrow> score_value" where
  "guarded formula st =
     (if totalSentences st = 0 \<or> totalWords st = 0 then UndefinedFormula
      else Value (formula st))"

text \<open>
  Modelled from the spec: the dual-mode contract of \<open>X_score(text, statistics=None)\<close>
  of the missing module \<open>common_scores\<close>. A supplied snapshot is used directly and the
  text is not looked at (in its corpus loop the session passes \<open>None\<close> as the text);
  without a snapshot the aggregator is run on the text, which must be a canonical Text.
\<close>

definition dual_mode ::
  "(Statistics \<Rightarrow> real) \<Rightarrow> (string \<Rightarrow> int) \<Rightarrow> pyval \<Rightarrow> Statistics option \<Rightarrow> error + score_value" where
  "dual_mode formula syl text snapshot =
     (case snapshot of
        Some st \<Rightarrow> Inr (guarded formula st)
      | None \<Rightarrow>
          (case text_of text of
             None \<Rightarrow> Inl TypeError
           | Some t \<Rightarrow> Inr (guarded formula (aggregate syl t))))"

section \<open>score and the dedicated accessors\<close>

text \<open>
  The \<open>if\<close>/\<open>elif\<close> chain of \<open>score\<close> binds \<open>func\<close>; with any other name \<open>func\<close> stays
  unbound and its first use raises UnboundLocalError.
\<close>

definition select_func :: "real \<times> real \<times> real \<Rightarrow> string \<Rightarrow> (Statistics \<Rightarrow> real) option" where
  "select_func k name =
     (if name = ''gfi'' then Some GFI_formula
      else if name = ''ari'' then Some ARI_formula
      else if name = ''fre'' then Some FRE_formula
      else if name = ''fkgl'' then Some FKGL_formula
      else if name = ''smog'' then Some SMOG_formula
      else if name = ''rel'' then Some (REL_formula k)
      else None)"

definition use_func :: "(Statistics \<Rightarrow> real) option \<Rightarrow> error + (Statistics \<Rightarrow> real)" where
  "use_func func = (case func of None \<Rightarrow> Inl UnboundLocalError | Some f \<Rightarrow> Inr f)"

datatype score_result =
    Scalar score_value
  | PerClass "(string \<times> score_value list) list"
  | IntCode int

text \<open>
  The branch \<open>if self.content_type == "text"\<close>, the same in all seven methods:
  \<open>func(self.content, self.statistics)\<close> when \<open>hasattr(self, "statistics")\<close>,
  \<open>func(self.content)\<close> otherwise, which is the call with the default \<open>None\<close> for
  the snapshot.
\<close>

definition score_text ::
  "(Statistics \<Rightarrow> real) option \<Rightarrow> (string \<Rightarrow> int) \<Rightarrow> Readability \<Rightarrow> error + score_result" where
  "score_text func syl self =
     ebind (use_func func) (\<lambda>f.
     ebind (getattr (content self)) (\<lambda>cont.
     ebind (dual_mode f syl cont (statistics self)) (\<lambda>v. Inr (Scalar v))))"

text \<open>
  The corpus loop of \<open>score\<close> and of \<open>gfi\<close>: \<open>scores[level] = []\<close>, then one score per
  snapshot of \<open>self.corpus_statistics[level]\<close> when the session is compiled, one per text
  of \<open>self.content[level]\<close> otherwise.
\<close>

definition level_scores ::
  "(Statistics \<Rightarrow> real) option \<Rightarrow> (string \<Rightarrow> int) \<Rightarrow> Readability \<Rightarrow> string \<Rightarrow>
   error + score_value list" where
  "level_scores func syl self level =
     (case corpus_statistics self of
        Some cs \<Rightarrow>
          (case map_of cs level of
             None \<Rightarrow> Inl KeyError
           | Some sts \<Rightarrow>
               emap (\<lambda>st. ebind (use_func func) (\<lambda>f. dual_mode f syl PNone (Some st))) sts)
      | None \<Rightarrow>
          ebind (getattr (content self)) (\<lambda>cont.
          ebind (py_getitem cont level) (\<lambda>texts.
          ebind (py_iter texts) (\<lambda>ts.
            emap (\<lambda>text. ebind (use_func func) (\<lambda>f. dual_mode f syl text None)) ts))))"

fun score_levels ::
  "(Statistics \<Rightarrow> real) option \<Rightarrow> (string \<Rightarrow> int) \<Rightarrow> Readability \<Rightarrow> string list \<Rightarrow>
   (string \<times> score_value list) list \<Rightarrow> error + (string \<times> score_value list) list" where
  "score_levels func syl self [] scores = Inr scores"
| "score_levels func syl self (level # levels) scores =
     ebind (level_scores func syl self level) (\<lambda>vs.
       score_levels func syl self levels (dict_set scores level vs))"

definition score_with ::
  "(Statistics \<Rightarrow> real) option \<Rightarrow> (string \<Rightarrow> int) \<Rightarrow> Readability \<Rightarrow> error + score_result" where
  "score_with func syl self =
     ebind (getattr (content_type self)) (\<lambda>ct.
       if ct = ''text'' then score_text func syl self
       else if ct = ''corpus'' then
         ebind (getattr (classes self)) (\<lambda>cls.
         ebind (score_levels func syl self cls []) (\<lambda>scores. Inr (PerClass scores)))
       else Inr (IntCode (- 1)))"

definition score ::
  "real \<times> real \<times> real \<Rightarrow> (string \<Rightarrow> int) \<Rightarrow> Readability \<Rightarrow> string \<Rightarrow> error + score_result" where
  "score k syl self name = score_with (select_func k name) syl self"

text \<open>\<open>gfi\<close> repeats the body of \<open>score\<close> with \<open>common_scores.GFI_score\<close> written out.\<close>

definition gfi :: "(string \<Rightarrow> int) \<Rightarrow> Readability \<Rightarrow> error + score_result" where
  "gfi syl self = score_with (Some GFI_formula) syl self"

text \<open>
  \<open>ari\<close>, \<open>fre\<close>, \<open>fkgl\<close>, \<open>smog\<close> and \<open>rel\<close> share one body: the text branch, then
  \<open>elif self.content_type == "corpus": print("just do a loop and return a list of
  scores")\<close> and, in every case but the text one, \<open>return -1\<close>.
\<close>

definition text_only_accessor ::
  "(Statistics \<Rightarrow> real) \<Rightarrow> (string \<Rightarrow> int) \<Rightarrow> Readability \<Rightarrow> error + score_result" where
  "text_only_accessor formula syl self =
     ebind (getattr (content_type self)) (\<lambda>ct.
       if ct = ''text'' then score_text (Some formula) syl self
       else Inr (IntCode (- 1)))"

definition ari :: "(string \<Rightarrow> int) \<Rightarrow> Readability \<Rightarrow> error + score_result" where
  "ari syl self = text_only_accessor ARI_formula syl self"

definition fre :: "(string \<Rightarrow> int) \<Rightarrow> Readability \<Rightarrow> error + score_result" where
  "fre syl self = text_only_accessor FRE_formula syl self"

definition fkgl :: "(string \<Rightarrow> int) \<Rightarrow> Readability \<Rightarrow> error + score_result" where
  "fkgl syl self = text_only_accessor FKGL_formula syl self"

definition smog :: "(string \<Rightarrow> int) \<Rightarrow> Readability \<Rightarrow> error + score_result" where
  "smog syl self = text_only_accessor SMOG_formula syl self"

definition rel :: "real \<times> real \<times> real \<Rightarrow> (string \<Rightarrow> int) \<Rightarrow> Readability \<Rightarrow> error + score_result" where
  "rel k syl self = text_only_accessor (REL_formula k) syl self"

section \<open>The diversity module\<close>

text \<open>
  The module exists twice: \<open>readability/stats/diversity.py\<close> and
  \<open>readability/readability/stats/diversity.py\<close>. The functions of the second carry the
  suffix \<open>_nested\<close> here. \<open>utils.convert_text_to_string\<close> is not among the sources and
  is a parameter; \<open>noun_token_ratio\<close> of the first file does the conversion in line.

  A text is a string here and a character is a code point below 256.
  \<open>string.punctuation\<close> is the 32 ASCII punctuation characters. \<open>str.split()\<close> cuts
  at runs of the characters for which \<open>str.isspace\<close> holds: below 256 these are tab to
  carriage return (9 to 13), the four separators 28 to 31, the space (32), the next-line
  character U+0085 (133) and the no-break space U+00A0 (160).
  The results, Python floats or the integers \<open>-1\<close> and \<open>0\<close>, are real numbers.
\<close>

definition is_punctuation :: "char \<Rightarrow> bool" where
  "is_punctuation c =
     (let n = (of_char c :: nat)
      in (33 \<le> n \<and> n \<le> 47) \<or> (58 \<le> n \<and> n \<le> 64) \<or> (91 \<le> n \<and> n \<le> 96)
         \<or> (123 \<le> n \<and> n \<le> 126))"

definition is_whitespace :: "char \<Rightarrow> bool" where
  "is_whitespace c =
     (let n = (of_char c :: nat)
      in (9 \<le> n \<and> n \<le> 13) \<or> (28 \<le> n \<and> n \<le> 32) \<or> n = 133 \<or> n = 160)"

text \<open>\<open>doc.translate(str.maketrans('', '', string.punctuation))\<close>\<close>

definition strip_punctuation :: "string \<Rightarrow> string" where
  "strip_punctuation doc = filter (\<lambda>c. \<not> is_punctuation c) doc"

text \<open>\<open>doc.split()\<close>, with the word being read as an accumulator.\<close>

fun split_from :: "string \<Rightarrow> string \<Rightarrow> string list" where
  "split_from cur [] = (if cur = [] then [] else [cur])"
| "split_from cur (c # cs) =
     (if is_whitespace c then (if cur = [] then split_from [] cs else cur # split_from [] cs)
      else split_from (cur @ [c]) cs)"

definition py_split :: "string \<Rightarrow> string list" where
  "py_split doc = split_from [] doc"

text \<open>The three-way branch on \<open>mode\<close> that ends each of the four functions.\<close>

definition mode_ratio :: "nat \<Rightarrow> nat \<Rightarrow> string option \<Rightarrow> real" where
  "mode_ratio nb_unique nb_tokens mode =
     (if mode = Some ''corrected'' then real nb_unique / sqrt (2 * real nb_tokens)
      else if mode = Some ''root'' then real nb_unique / sqrt (real nb_tokens)
      else real nb_unique / real nb_tokens)"

definition warning_ttr :: string where
  "warning_ttr = ''WARNING : Current text's content is empty, return value has been set to -1''"

definition warning_ntr :: string where
  "warning_ntr = ''WARNING : Current text's content is empty or no nouns have been recognized, return value has been set to -1''"

definition warning_ttr_nested :: string where
  "warning_ttr_nested = ''WARNING : Current text's content is empty, returned ratio value has been set to 0''"

definition warning_ntr_nested :: string where
  "warning_ntr_nested = ''WARNING : Current text's content is empty or no nouns have been recognized, returned ratio value has been set to 0''"

text \<open>\<open>len(Counter(xs))\<close> is the number of distinct items of \<open>xs\<close>.\<close>

definition nb_distinct :: "string list \<Rightarrow> nat" where
  "nb_distinct xs = length (remdups xs)"

definition type_token_ratio ::
  "(pyval \<Rightarrow> error + string) \<Rightarrow> pyval \<Rightarrow> string option \<Rightarrow> error + real \<times> string list" where
  "type_token_ratio convert_text_to_string text mode =
     ebind (convert_text_to_string text) (\<lambda>doc0.
       let doc = strip_punctuation doc0;
           nb_unique = nb_distinct (py_split doc);
           nb_tokens = length (py_split doc)
       in if nb_tokens = 0 then Inr (- 1, [warning_ttr])
          else Inr (mode_ratio nb_unique nb_tokens mode, []))"

definition type_token_ratio_nested ::
  "(pyval \<Rightarrow> error + string) \<Rightarrow> pyval \<Rightarrow> string option \<Rightarrow> error + real \<times> string list" where
  "type_token_ratio_nested convert_text_to_string text mode =
     ebind (convert_text_to_string text) (\<lambda>doc0.
       let doc = strip_punctuation doc0;
           nb_unique = nb_distinct (py_split doc);
           nb_tokens = length (py_split doc)
       in if nb_tokens = 0 then Inr (0, [warning_ttr_nested])
          else Inr (mode_ratio nb_unique nb_tokens mode, []))"

text \<open>
  A spaCy token, as far as \<open>noun_token_ratio\<close> reads it, and the pipeline as the function
  from a string to its tokens (\<open>nlp = None\<close> is the default, and calling it raises
  TypeError).
\<close>

record spacy_token =
  tok_text :: string
  is_punct :: bool
  pos_tag :: string

definition nouns_of :: "spacy_token list \<Rightarrow> string list" where
  "nouns_of toks =
     map tok_text (filter (\<lambda>token. \<not> is_punct token \<and> pos_tag token = ''NOUN'') toks)"

definition call_tagger :: "(string \<Rightarrow> spacy_token list) option \<Rightarrow> string \<Rightarrow> error + spacy_token list" where
  "call_tagger tagger doc = (case tagger of None \<Rightarrow> Inl TypeError | Some f \<Rightarrow> Inr (f doc))"

text \<open>
  The conversion written out in \<open>noun_token_ratio\<close> of \<open>readability/stats/diversity.py\<close>:
  a string is taken as it is; a list with a list among its elements is joined sentence by
  sentence, each preceded by a space; any other list is joined with spaces; for anything
  else \<open>doc\<close> stays unbound.
\<close>

definition text_to_doc :: "pyval \<Rightarrow> error + string" where
  "text_to_doc text =
     (case text of
        PStr s \<Rightarrow> Inr s
      | _ \<Rightarrow>
          ebind (py_iter text) (\<lambda>els.
            if list_ex is_list els then
              ebind (emap py_join els) (\<lambda>parts. Inr (concat (map (\<lambda>p. '' '' @ p) parts)))
            else if is_list text then py_join text
            else Inl UnboundLocalError))"

definition noun_token_ratio ::
  "pyval \<Rightarrow> (string \<Rightarrow> spacy_token list) option \<Rightarrow> string option \<Rightarrow> error + real \<times> string list" where
  "noun_token_ratio text tagger mode =
     ebind (text_to_doc text) (\<lambda>doc.
     ebind (call_tagger tagger doc) (\<lambda>toks.
       let nouns = nouns_of toks;
           nb_unique = nb_distinct nouns;
           nb_tokens = length nouns
       in if nb_tokens = 0 then Inr (- 1, [warning_ntr])
          else Inr (mode_ratio nb_unique nb_tokens mode, [])))"

definition noun_token_ratio_nested ::
  "(pyval \<Rightarrow> error + string) \<Rightarrow> pyval \<Rightarrow> (string \<Rightarrow> spacy_token list) option \<Rightarrow> string option \<Rightarrow>
   error + real \<times> string list" where
  "noun_token_ratio_nested convert_text_to_string text tagger mode =
     ebind (convert_text_to_string text) (\<lambda>doc.
     ebind (call_tagger tagger doc) (\<lambda>toks.
       let nouns = nouns_of toks;
           nb_unique = nb_distinct nouns;
           nb_tokens = length nouns
       in if nb_tokens = 0 then Inr (0, [warning_ntr_nested])
          else Inr (mode_ratio nb_unique nb_tokens mode, [])))"

section \<open>Sample collaborators and sessions\<close>

text \<open>
  Stand-ins for the external collaborators, used where a statement is evaluated on a
  concrete input: a syllable estimate that counts the vowels of a token, a pipeline that
  reads a string as one sentence of whitespace-separated tokens, and a tagger that tags
  every whitespace-separated token as a common noun.
\<close>

definition count_vowels :: "string \<Rightarrow> int" where
  "count_vowels w = int (length (filter (\<lambda>c. c \<in> set ''aeiouyAEIOUY'') w))"

definition one_sentence :: "string \<Rightarrow> string list list" where
  "one_sentence s = (if py_split s = [] then [] else [py_split s])"

definition all_nouns :: "string \<Rightarrow> spacy_token list" where
  "all_nouns doc =
     map (\<lambda>w. \<lparr>tok_text = w, is_punct = False, pos_tag = ''NOUN''\<rparr>) (py_split doc)"

text \<open>
  \<open>Readability(content)\<close> with the default keyword arguments, and the snapshot held
  after \<open>Readability(content).compile()\<close>.
\<close>

definition Readability_new ::
  "(string \<Rightarrow> string list list) \<Rightarrow> pyval \<Rightarrow> error + Readability \<times> string list" where
  "Readability_new pipeline cont = init pipeline cont ''fr'' ''spacy_sm'' ''gpt2''"

definition compiled_snapshot ::
  "(string \<Rightarrow> string list list) \<Rightarrow> (string \<Rightarrow> int) \<Rightarrow> pyval \<Rightarrow> error + Statistics option" where
  "compiled_snapshot pipeline syl cont =
     ebind (Readability_new pipeline cont) (\<lambda>r.
     ebind (compile syl (fst r)) (\<lambda>r'. Inr (statistics (snd r'))))"

text \<open>The instances that \<open>Readability(content)\<close> builds from canonical content.\<close>

definition text_session :: "(string \<Rightarrow> string list list) \<Rightarrow> string list list \<Rightarrow> Readability" where
  "text_session pipeline t =
     \<lparr>lang = ''fr'', perplexity_processor = ''gpt2'', nlp = Some pipeline,
      content = Some (text_val t), content_type = Some ''text'', classes = None,
      statistics = None, corpus_statistics = None\<rparr>"

definition corpus_session ::
  "(string \<Rightarrow> string list list) \<Rightarrow> (string \<times> string list list list) list \<Rightarrow> Readability" where
  "corpus_session pipeline c =
     \<lparr>lang = ''fr'', perplexity_processor = ''gpt2'', nlp = Some pipeline,
      content = Some (corpus_val c), content_type = Some ''corpus'',
      classes = Some (map fst c), statistics = None, corpus_statistics = None\<rparr>"

definition example_text :: "string list list" where
  "example_text = [[''Le'', ''chat'', ''mange''], [''Il'', ''est'', ''content'']]"

definition example_corpus :: "(string \<times> string list list list) list" where
  "example_corpus =
     [(''A'', [example_text, [[''Oui'']]]), (''B'', [[[''Une'', ''hirondelle'']]])]"

definition snapshot_fields :: "Statistics \<Rightarrow> int \<times> int \<times> int \<times> int" where
  "snapshot_fields st =
     (totalWords st, totalSentences st, totalCharacters st, totalLongWords st)"

section \<open>The documented input shapes\<close>

text \<open>
  The docstring of the constructor gives the type of \<open>content\<close> as \<open>str\<close>,
  \<open>list(str)\<close>, \<open>list(list(str))\<close> or \<open>dict[class][text][sentence][token]\<close>.
  \<open>is_text\<close> is the Text invariant: a list whose elements are lists of strings.
\<close>

definition is_text :: "pyval \<Rightarrow> bool" where
  "is_text v = (case text_of v of None \<Rightarrow> False | Some t \<Rightarrow> True)"

fun is_token_list :: "pyval \<Rightarrow> bool" where
  "is_token_list (PList xs) = list_all is_str xs"
| "is_token_list v = False"

fun is_text_list :: "pyval \<Rightarrow> bool" where
  "is_text_list (PList ts) = list_all is_text ts"
| "is_text_list v = False"

fun is_corpus :: "pyval \<Rightarrow> bool" where
  "is_corpus (PDict kvs) =
     (distinct (map fst kvs) \<and> list_all (\<lambda>kv. is_text_list (snd kv)) kvs)"
| "is_corpus v = False"

definition documented_input :: "pyval \<Rightarrow> bool" where
  "documented_input cont =
     (is_str cont \<or> is_token_list cont \<or> is_text cont \<or> is_corpus cont)"

section \<open>Inputs used in the evaluations\<close>

definition mixed_list :: pyval where
  "mixed_list = PList [PStr ''Bonjour'', PList [PStr ''Le'', PStr ''chat'']]"

definition misshaped_dict :: pyval where
  "misshaped_dict = PDict [(''A'', PStr ''un texte'')]"

definition hundred_words :: pyval where
  "hundred_words = PStr (concat (replicate 100 ''a ''))"

definition eleven_tokens :: pyval where
  "eleven_tokens = PList (replicate 11 (PStr ''a''))"

definition number_sentence :: pyval where
  "number_sentence = PList [PList [PInt 1, PInt 2]]"

definition nbsp_text :: pyval where
  "nbsp_text = PStr [CHR ''l'', CHR ''e'', CHR 0xA0, CHR ''c'', CHR ''h'', CHR ''a'', CHR ''t'']"

section \<open>Facts about the built-ins\<close>

lemma emap_py_len_PStr: "emap py_len (map PStr s) = Inr (map (\<lambda>w. int (length w)) s)"
  by (induction s) (simp_all add: ebind_def)

lemma emap_syllablesplit_PStr: "emap (syllablesplit syl) (map PStr s) = Inr (map syl s)"
  by (induction s) (simp_all add: ebind_def syllablesplit_def)

lemma sum_list_const_one: "sum_list (map (\<lambda>k. 1::int) xs) = int (length xs)"
  by (induction xs) simp_all

lemma dict_set_fresh: "k \<notin> fst ` set ps \<Longrightarrow> dict_set ps k v = ps @ [(k, v)]"
  by (induction ps) auto

lemma py_getitem_corpus_val:
  "map_of c k = Some ts \<Longrightarrow> py_getitem (corpus_val c) k = Inr (PList (map text_val ts))"
  by (induction c) (auto simp: corpus_val_def split: if_splits)

section \<open>What compile computes on canonical content\<close>

lemma sentence_step_canonical:
  "sentence_step syl (PList (map PStr s)) (tw, tlw, tc, ts, np) =
     Inr (tw + int (length s),
          tlw + int (length (filter (\<lambda>w. length w > 6) s)),
          tc + sum_list (map (\<lambda>w. int (length w)) s),
          ts + sum_list (map syl s),
          np + int (length (filter (\<lambda>w. syl w \<ge> 3) s)))"
  by (simp add: sentence_step_def ebind_def emap_py_len_PStr emap_syllablesplit_PStr
      sum_list_const_one filter_map o_def)

lemma sentence_loop_canonical:
  "sentence_loop syl (map (\<lambda>s. PList (map PStr s)) t) (tw, tlw, tc, ts, np) =
     Inr (tw + sum_list (map (\<lambda>s. int (length s)) t),
          tlw + int (length (filter (\<lambda>w. length w > 6) (concat t))),
          tc + sum_list (map (\<lambda>w. int (length w)) (concat t)),
          ts + sum_list (map syl (concat t)),
          np + int (length (filter (\<lambda>w. syl w \<ge> 3) (concat t))))"
proof (induction t arbitrary: tw tlw tc ts np)
  case Nil
  show ?case by simp
next
  case (Cons s t)
  show ?case
    by (simp add: sentence_step_canonical ebind_def Cons.IH)
qed

lemma text_statistics_canonical:
  "text_statistics syl (text_val t) = Inr (aggregate syl t)"
  by (simp add: text_statistics_def text_val_def ebind_def sentence_loop_canonical
      aggregate_def)

lemma emap_text_statistics:
  "emap (text_statistics syl) (map text_val ts) = Inr (map (aggregate syl) ts)"
  by (induction ts) (simp_all add: ebind_def text_statistics_canonical)

lemma level_loop_canonical:
  "content self = Some (corpus_val c) \<Longrightarrow>
   distinct (map fst pre @ map fst todo) \<Longrightarrow>
   (\<And>k ts. (k, ts) \<in> set todo \<Longrightarrow> map_of c k = Some ts) \<Longrightarrow>
   level_loop syl self (map fst todo) (aggregate_corpus syl pre) =
     Inr (aggregate_corpus syl (pre @ todo))"
proof (induction todo arbitrary: pre)
  case Nil
  show ?case by simp
next
  case (Cons kv todo)
  obtain k ts where kv: "kv = (k, ts)" by (cases kv)
  have look: "map_of c k = Some ts" using Cons.prems(3) kv by simp
  have fresh: "k \<notin> fst ` set (aggregate_corpus syl pre)"
    using Cons.prems(2) kv by (force simp: aggregate_corpus_def image_iff)
  have step: "dict_set (aggregate_corpus syl pre) k (map (aggregate syl) ts) =
      aggregate_corpus syl (pre @ [kv])"
    using dict_set_fresh[OF fresh] kv by (simp add: aggregate_corpus_def)
  have d: "distinct (map fst (pre @ [kv]) @ map fst todo)"
    using Cons.prems(2) by simp
  have rest: "\<And>k ts. (k, ts) \<in> set todo \<Longrightarrow> map_of c k = Some ts"
    using Cons.prems(3) by simp
  show ?case
    using Cons.IH[OF Cons.prems(1) d rest] look step kv Cons.prems(1)
    by (simp add: ebind_def getattr_def py_getitem_corpus_val emap_text_statistics)
qed

lemma level_loop_corpus:
  assumes "content self = Some (corpus_val c)" and "distinct (map fst c)"
  shows "level_loop syl self (map fst c) [] = Inr (aggregate_corpus syl c)"
proof -
  have "\<And>k ts. (k, ts) \<in> set c \<Longrightarrow> map_of c k = Some ts"
    using assms(2) by simp
  then show ?thesis
    using level_loop_canonical[of self c "[]" c syl] assms by (simp add: aggregate_corpus_def)
qed

lemma compile_text_canonical:
  "content_type self = Some ''text'' \<Longrightarrow> content self = Some (text_val t) \<Longrightarrow>
   compile syl self = Inr (ReturnsSelf, self\<lparr>statistics := Some (aggregate syl t)\<rparr>)"
  by (simp add: compile_def getattr_def ebind_def text_statistics_canonical)

lemma compile_corpus_canonical:
  "content_type self = Some ''corpus'' \<Longrightarrow> content self = Some (corpus_val c) \<Longrightarrow>
   classes self = Some (map fst c) \<Longrightarrow> distinct (map fst c) \<Longrightarrow>
   compile syl self =
     Inr (ReturnsSelf, self\<lparr>corpus_statistics := Some (aggregate_corpus syl c)\<rparr>)"
  by (simp add: compile_def getattr_def ebind_def level_loop_corpus)

lemma aggregate_totalWords_nonneg: "0 \<le> totalWords (aggregate syl t)"
  by (simp add: aggregate_def) (rule sum_list_nonneg, auto)

text \<open>
  Claim C1. On a session whose content is a canonical Text, \<open>compile\<close> returns the session
  with a snapshot whose six fields are the totals of the specification (\<open>aggregate\<close>: the
  sum of the sentence lengths, the number of tokens longer than six characters, the number
  of sentences, the sum of the token lengths, the sum of the syllable estimates, the number
  of tokens with an estimate of at least three), and the word total is not negative. On a
  session whose content is a canonical corpus, \<open>compile\<close> stores, for every class in the
  order of the classes, the list of the snapshots of its texts in the order of the texts.
\<close>

theorem compile_statistics:
  "(content_type self = Some ''text'' \<and> content self = Some (text_val t) \<longrightarrow>
      compile syl self = Inr (ReturnsSelf, self\<lparr>statistics := Some (aggregate syl t)\<rparr>)
      \<and> 0 \<le> totalWords (aggregate syl t))
   \<and> (content_type self = Some ''corpus'' \<and> content self = Some (corpus_val c)
        \<and> classes self = Some (map fst c) \<and> distinct (map fst c) \<longrightarrow>
      compile syl self =
        Inr (ReturnsSelf, self\<lparr>corpus_statistics := Some (aggregate_corpus syl c)\<rparr>))"
  using compile_text_canonical[of self t syl] compile_corpus_canonical[of self c syl]
    aggregate_totalWords_nonneg[of syl t]
  by blast

theorem compile_statistics_witness:
  "compile count_vowels (text_session one_sentence example_text) =
     Inr (ReturnsSelf, (text_session one_sentence example_text)
            \<lparr>statistics := Some (aggregate count_vowels example_text)\<rparr>)
   \<and> 0 \<le> totalWords (aggregate count_vowels example_text)
   \<and> compile count_vowels (corpus_session one_sentence example_corpus) =
     Inr (ReturnsSelf, (corpus_session one_sentence example_corpus)
            \<lparr>corpus_statistics := Some (aggregate_corpus count_vowels example_corpus)\<rparr>)"
  using compile_statistics[where self = "text_session one_sentence example_text"
      and t = example_text and syl = count_vowels]
    compile_statistics[where self = "corpus_session one_sentence example_corpus"
      and c = example_corpus and syl = count_vowels]
  by (simp add: text_session_def corpus_session_def example_corpus_def)

section \<open>Facts about the error monad and canonical values\<close>

lemma ebind_Inr: "ebind m f = Inr y \<Longrightarrow> \<exists>x. m = Inr x \<and> f x = Inr y"
  by (cases m) (simp_all add: ebind_def)

lemma getattr_Inr: "getattr a = Inr v \<Longrightarrow> a = Some v"
  by (cases a) (simp_all add: getattr_def)

lemma those_map_Some: "those (map Some xs) = Some xs"
  by (induction xs) simp_all

lemma those_sentences:
  "those (map sentence_of (map (\<lambda>s. PList (map PStr s)) t)) = Some t"
  by (induction t) (simp_all add: o_def those_map_Some)

lemma text_of_text_val: "text_of (text_val t) = Some t"
  by (simp add: text_val_def those_sentences del: map_map)

lemma is_text_text_val: "is_text (text_val t)"
  by (simp add: is_text_def text_of_text_val)

lemma str_of_Some: "str_of v = Some s \<Longrightarrow> v = PStr s"
  by (cases v) simp_all

lemma those_map_str_of: "those (map str_of ws) = Some s \<Longrightarrow> ws = map PStr s"
  by (induction ws arbitrary: s) (auto split: option.splits dest: str_of_Some)

lemma sentence_of_Some: "sentence_of v = Some s \<Longrightarrow> v = PList (map PStr s)"
  by (cases v) (auto dest: those_map_str_of)

lemma those_map_sentence_of:
  "those (map sentence_of ss) = Some t \<Longrightarrow> ss = map (\<lambda>s. PList (map PStr s)) t"
  by (induction ss arbitrary: t) (auto split: option.splits dest: sentence_of_Some)

lemma text_of_Some: "text_of v = Some t \<Longrightarrow> v = text_val t"
  by (cases v) (auto simp: text_val_def dest: those_map_sentence_of)

lemma is_text_canonical: "is_text v \<Longrightarrow> \<exists>t. v = text_val t"
  by (auto simp: is_text_def split: option.splits dest: text_of_Some)

lemma all_is_text: "list_all is_text ts \<Longrightarrow> \<exists>us. ts = map text_val us"
proof (induction ts)
  case Nil
  show ?case by simp
next
  case (Cons v ts)
  from Cons.prems have "is_text v" and "list_all is_text ts" by simp_all
  then obtain t where t: "v = text_val t" using is_text_canonical by blast
  from Cons.IH[OF \<open>list_all is_text ts\<close>] obtain us where us: "ts = map text_val us" by blast
  have "v # ts = map text_val (t # us)" using t us by simp
  then show ?case by (rule exI)
qed

lemma is_text_list_canonical: "is_text_list v \<Longrightarrow> \<exists>us. v = PList (map text_val us)"
  by (cases v) (auto dest: all_is_text)

lemma all_is_text_list:
  "list_all (\<lambda>kv. is_text_list (snd kv)) kvs \<Longrightarrow>
   \<exists>c. kvs = map (\<lambda>kv. (fst kv, PList (map text_val (snd kv)))) c \<and> map fst c = map fst kvs"
proof (induction kvs)
  case Nil
  show ?case by simp
next
  case (Cons kv kvs)
  from Cons.prems have h: "is_text_list (snd kv)"
    and t: "list_all (\<lambda>kv. is_text_list (snd kv)) kvs" by simp_all
  from is_text_list_canonical[OF h] obtain us where us: "snd kv = PList (map text_val us)"
    by blast
  from Cons.IH[OF t] obtain c where
    c: "kvs = map (\<lambda>kv. (fst kv, PList (map text_val (snd kv)))) c" "map fst c = map fst kvs"
    by blast
  have "kv # kvs = map (\<lambda>kv. (fst kv, PList (map text_val (snd kv)))) ((fst kv, us) # c)"
    using us c(1) by (simp add: prod_eq_iff)
  moreover have "map fst ((fst kv, us) # c) = map fst (kv # kvs)" using c(2) by simp
  ultimately show ?case by (intro exI[of _ "(fst kv, us) # c"] conjI)
qed

lemma is_corpus_canonical:
  "is_corpus v \<Longrightarrow> \<exists>c. v = corpus_val c \<and> distinct (map fst c)"
proof (cases v)
  case (PDict kvs)
  assume "is_corpus v"
  then have d: "distinct (map fst kvs)" and a: "list_all (\<lambda>kv. is_text_list (snd kv)) kvs"
    using PDict by simp_all
  from all_is_text_list[OF a] obtain c where
    c: "kvs = map (\<lambda>kv. (fst kv, PList (map text_val (snd kv)))) c" "map fst c = map fst kvs"
    by blast
  have "v = corpus_val c" using PDict c(1) by (simp add: corpus_val_def)
  moreover have "distinct (map fst c)" using d c(2) by simp
  ultimately show ?thesis by blast
qed simp_all

section \<open>The branches of the constructor\<close>

lemma init_PStr:
  "init pipeline (PStr s) lang' nlp_name ppl = init_string (blank pipeline lang' nlp_name ppl) s"
  by (simp add: init_def)

lemma init_nested:
  "list_ex is_list xs \<Longrightarrow>
   init pipeline (PList xs) lang' nlp_name ppl =
     Inr ((blank pipeline lang' nlp_name ppl)
            \<lparr>content_type := Some ''text'', content := Some (PList xs)\<rparr>, [])"
  by (simp add: init_def ebind_def)

lemma init_flat:
  "\<not> list_ex is_list xs \<Longrightarrow>
   init pipeline (PList xs) lang' nlp_name ppl =
     init_tokens (blank pipeline lang' nlp_name ppl) (PList xs)"
  by (simp add: init_def ebind_def)

lemma keys_not_lists: "\<not> list_ex is_list (map (\<lambda>kv. PStr (fst kv)) kvs)"
  by (induction kvs) simp_all

lemma init_PDict:
  "init pipeline (PDict kvs) lang' nlp_name ppl =
     init_corpus (blank pipeline lang' nlp_name ppl) (PDict kvs)"
  by (simp add: init_def ebind_def keys_not_lists)

lemma init_PNone: "init pipeline PNone lang' nlp_name ppl = Inl TypeError"
  by (simp add: init_def ebind_def)

lemma init_PInt: "init pipeline (PInt i) lang' nlp_name ppl = Inl TypeError"
  by (simp add: init_def ebind_def)

lemma init_string_Inr:
  "init_string self s = Inr (self', out) \<Longrightarrow>
   \<exists>f. nlp self = Some f
     \<and> self' = self\<lparr>content_type := Some ''text'', content := Some (text_val (f s))\<rparr>
     \<and> out = (if nb_words_string (f s) < 101 then [warning_string] else [])"
  by (cases "nlp self") (auto simp: init_string_def call_nlp_def ebind_def)

lemma init_tokens_Inr:
  "init_tokens self cont = Inr (self', out) \<Longrightarrow>
   \<exists>f joined. nlp self = Some f \<and> py_join cont = Inr joined
     \<and> self' = self\<lparr>content_type := Some ''text'', content := Some (text_val (f joined))\<rparr>
     \<and> out = (if nb_words_tokens (f joined) < 101 then [warning_tokens] else [])"
  by (cases "nlp self"; cases "py_join cont")
    (auto simp: init_tokens_def call_nlp_def ebind_def)

lemma init_corpus_Inr:
  "init_corpus self cont = Inr (self', out) \<Longrightarrow>
   out = [] \<and> (self' = self
     \<or> (\<exists>kvs. cont = PDict kvs
          \<and> self' = self\<lparr>content_type := Some ''corpus'', content := Some cont,
                           classes := Some (map fst kvs)\<rparr>))"
  by (auto simp: init_corpus_def ebind_def
      split: pyval.splits list.splits if_splits sum.splits)

lemma Readability_new_nested:
  "t \<noteq> [] \<Longrightarrow> Readability_new pipeline (text_val t) = Inr (text_session pipeline t, [])"
  by (cases t)
    (simp_all add: Readability_new_def init_def text_val_def ebind_def acquire_nlp_def
      text_session_def blank_def)

lemma Readability_new_example_corpus:
  "Readability_new pipeline (corpus_val example_corpus) =
     Inr (corpus_session pipeline example_corpus, [])"
  by (simp add: Readability_new_def corpus_val_def init_PDict init_corpus_def
      example_corpus_def example_text_def text_val_def ebind_def blank_def acquire_nlp_def
      corpus_session_def)

lemma compiled_snapshot_nested:
  "t \<noteq> [] \<Longrightarrow> compiled_snapshot pipeline syl (text_val t) = Inr (Some (aggregate syl t))"
  using compile_text_canonical[of "text_session pipeline t" t syl]
  by (simp add: compiled_snapshot_def Readability_new_nested ebind_def text_session_def)

section \<open>The worked example\<close>

text \<open>
  Claim C5, as amended. For the text \<open>[["Le","chat","mange"], ["Il","est","content"]]\<close>
  the snapshot that \<open>compile\<close> stores has totalWords = 6, totalSentences = 2,
  totalCharacters = 23 and totalLongWords = 1: the seven characters of "content" make it a
  long word. The two syllable fields are the totals of the syllable estimates.
\<close>

theorem example_snapshot:
  "compiled_snapshot pipeline syl (text_val example_text) =
     Inr (Some \<lparr>totalWords = 6, totalLongWords = 1, totalSentences = 2,
                totalCharacters = 23,
                totalSyllables = sum_list (map syl (concat example_text)),
                nbPolysyllables =
                  int (length (filter (\<lambda>w. syl w \<ge> 3) (concat example_text)))\<rparr>)"
proof -
  have "example_text \<noteq> []" by (simp add: example_text_def)
  then have "compiled_snapshot pipeline syl (text_val example_text) =
      Inr (Some (aggregate syl example_text))"
    by (rule compiled_snapshot_nested)
  moreover have "totalWords (aggregate syl example_text) = 6"
    by (simp add: aggregate_def example_text_def)
  moreover have "totalLongWords (aggregate syl example_text) = 1"
    by (simp add: aggregate_def example_text_def)
  moreover have "totalSentences (aggregate syl example_text) = 2"
    by (simp add: aggregate_def example_text_def)
  moreover have "totalCharacters (aggregate syl example_text) = 23"
    by (simp add: aggregate_def example_text_def)
  ultimately show ?thesis
    by (simp add: aggregate_def)
qed

text \<open>
  The figures of the claim as it was stated (24 characters, no long word) are not the ones
  \<open>compile\<close> stores.
\<close>

theorem example_snapshot_counterexample:
  "map_sum id (map_option snapshot_fields)
     (compiled_snapshot one_sentence count_vowels (text_val example_text))
   \<noteq> Inr (Some (6, 2, 24, 0))"
proof -
  have "example_text \<noteq> []" by (simp add: example_text_def)
  then have "compiled_snapshot one_sentence count_vowels (text_val example_text) =
      Inr (Some (aggregate count_vowels example_text))"
    by (rule compiled_snapshot_nested)
  moreover have "totalCharacters (aggregate count_vowels example_text) = 23"
    by (simp add: aggregate_def example_text_def)
  ultimately show ?thesis
    by (simp add: snapshot_fields_def)
qed

section \<open>List inputs and the Text invariant\<close>

lemma py_split_Le_chat: "py_split ''Le chat'' = [''Le'', ''chat'']"
  by (simp add: py_split_def is_whitespace_def)

lemma init_Le_chat:
  "init one_sentence (PList [PStr ''Le'', PStr ''chat'']) ''fr'' ''spacy_sm'' ''gpt2'' =
     Inr (text_session one_sentence [[''Le'', ''chat'']], [warning_tokens])"
  by (simp add: init_flat init_tokens_def ebind_def py_join_def call_nlp_def acquire_nlp_def
      one_sentence_def py_split_Le_chat nb_words_tokens_def text_session_def blank_def)

text \<open>
  Claim C7, as amended. When the constructor returns on a list input, the content type is
  "text" and: if no element of the list is a list (a flat token list), the stored content
  is the pipeline's segmentation of the tokens joined with single spaces, and it satisfies
  the Text invariant; if some element is a list, the stored content is the input itself,
  unchanged, whatever its other elements are.
\<close>

theorem list_normalization:
  assumes "init pipeline (PList xs) lang' nlp_name ppl = Inr (self, out)"
  shows "content_type self = Some ''text'' \<and>
         (if list_ex is_list xs then content self = Some (PList xs)
          else (\<exists>joined. py_join (PList xs) = Inr joined
                  \<and> nlp self = Some pipeline
                  \<and> content self = Some (text_val (pipeline joined)))
               \<and> map_option is_text (content self) = Some True)"
proof (cases "list_ex is_list xs")
  case True
  then show ?thesis using assms by (auto simp: init_nested)
next
  case False
  from assms have "init_tokens (blank pipeline lang' nlp_name ppl) (PList xs) = Inr (self, out)"
    by (simp add: init_flat[OF False])
  from init_tokens_Inr[OF this] obtain f joined where
    f: "nlp (blank pipeline lang' nlp_name ppl) = Some f"
    and j: "py_join (PList xs) = Inr joined"
    and s: "self = (blank pipeline lang' nlp_name ppl)
         \<lparr>content_type := Some ''text'', content := Some (text_val (f joined))\<rparr>"
    by blast
  have fp: "f = pipeline"
    using f by (simp add: blank_def acquire_nlp_def split: if_splits)
  have "nlp self = Some pipeline" using f s fp by simp
  moreover have "content self = Some (text_val (pipeline joined))" using s fp by simp
  moreover have "content_type self = Some ''text''" using s by simp
  ultimately show ?thesis
    using False j by (auto simp: is_text_text_val)
qed

theorem list_normalization_witness:
  "init one_sentence (PList [PStr ''Le'', PStr ''chat'']) ''fr'' ''spacy_sm'' ''gpt2'' =
     Inr (text_session one_sentence [[''Le'', ''chat'']], [warning_tokens])
   \<and> content_type (text_session one_sentence [[''Le'', ''chat'']]) = Some ''text''
   \<and> (\<exists>joined. py_join (PList [PStr ''Le'', PStr ''chat'']) = Inr joined
          \<and> nlp (text_session one_sentence [[''Le'', ''chat'']]) = Some one_sentence
          \<and> content (text_session one_sentence [[''Le'', ''chat'']]) =
               Some (text_val (one_sentence joined)))
   \<and> map_option is_text (content (text_session one_sentence [[''Le'', ''chat'']])) = Some True"
  using list_normalization[OF init_Le_chat] init_Le_chat by simp

text \<open>
  A list that mixes a raw string and a list is stored as it is: the content does not
  satisfy the Text invariant.
\<close>

theorem mixed_list_counterexample:
  "map_sum id (\<lambda>r. map_option is_text (content (fst r)))
     (Readability_new one_sentence mixed_list) = Inr (Some False)"
  by (simp add: Readability_new_def mixed_list_def init_nested is_text_def)

section \<open>Inputs of no accepted shape\<close>

text \<open>
  Claim C2 at the input \<open>{"A": "un texte"}\<close>: the constructor returns, and \<open>content\<close>,
  \<open>content_type\<close> and \<open>classes\<close> are left unassigned.
\<close>

theorem misshaped_dict_unset:
  "map_sum id (\<lambda>r. (content (fst r), content_type (fst r), classes (fst r)))
     (Readability_new one_sentence misshaped_dict) = Inr (None, None, None)"
  by (simp add: Readability_new_def misshaped_dict_def init_PDict init_corpus_def blank_def)

section \<open>The length warning\<close>

lemma split_from_replicate:
  "split_from [] (concat (replicate n ''a '')) = replicate n ''a''"
  by (induction n) (simp_all add: is_whitespace_def)

lemma one_sentence_hundred:
  "one_sentence (concat (replicate 100 ''a '')) = [replicate 100 ''a'']"
  by (simp add: one_sentence_def py_split_def split_from_replicate)

lemma join_sp_replicate:
  "join_sp (replicate (Suc n) ''a'') = ''a'' @ concat (replicate n '' a'')"
  by (induction n) simp_all

lemma split_from_a: "split_from ''a'' (concat (replicate n '' a'')) = replicate (Suc n) ''a''"
  by (induction n) (simp_all add: is_whitespace_def)

lemma py_split_join_replicate:
  "py_split (join_sp (replicate (Suc n) ''a'')) = replicate (Suc n) ''a''"
proof -
  have "join_sp (replicate (Suc n) ''a'') = ''a'' @ concat (replicate n '' a'')"
    by (rule join_sp_replicate)
  then have "py_split (join_sp (replicate (Suc n) ''a'')) =
      split_from ''a'' (concat (replicate n '' a''))"
    by (simp add: py_split_def is_whitespace_def)
  then show ?thesis by (simp only: split_from_a)
qed

lemma emap_as_str_replicate: "emap as_str (replicate n (PStr w)) = Inr (replicate n w)"
  by (induction n) (simp_all add: ebind_def)

lemma py_join_eleven: "py_join eleven_tokens = Inr (join_sp (replicate 11 ''a''))"
  by (simp add: py_join_def eleven_tokens_def ebind_def emap_as_str_replicate)

lemma one_sentence_eleven:
  "one_sentence (join_sp (replicate 11 ''a'')) = [replicate 11 ''a'']"
  using py_split_join_replicate[of 10] by (simp add: one_sentence_def)

lemma sum_list_replicate_const: "sum_list (map (\<lambda>x. c) xs) = int (length xs) * (c :: int)"
  by (induction xs) (simp_all add: algebra_simps)

text \<open>
  Claim C6 at two inputs. A string that the pipeline segments into exactly 100 words gets
  the warning; a flat list of 11 tokens that the pipeline keeps in one sentence gets none
  (the loop counts 121).
\<close>

theorem warning_threshold_evaluated:
  "map_sum id (\<lambda>r. (map_option text_of (content (fst r)), snd r))
     (Readability_new one_sentence hundred_words)
     = Inr (Some (Some [replicate 100 ''a'']), [warning_string])
   \<and> map_sum id (\<lambda>r. (map_option text_of (content (fst r)), snd r))
     (Readability_new one_sentence eleven_tokens)
     = Inr (Some (Some [replicate 11 ''a'']), [])"
proof -
  have 1: "Readability_new one_sentence hundred_words =
      Inr ((blank one_sentence ''fr'' ''spacy_sm'' ''gpt2'')
             \<lparr>content_type := Some ''text'',
              content := Some (text_val [replicate 100 ''a''])\<rparr>, [warning_string])"
    by (simp add: Readability_new_def hundred_words_def init_PStr init_string_def ebind_def
        call_nlp_def blank_def acquire_nlp_def one_sentence_hundred nb_words_string_def)
  have flat: "\<not> list_ex is_list (replicate 11 (PStr ''a''))"
    by (simp add: list_ex_iff)
  have nb: "nb_words_tokens [replicate 11 ''a''] = 121"
    by (simp add: nb_words_tokens_def sum_list_replicate_const)
  have 2: "Readability_new one_sentence eleven_tokens =
      Inr ((blank one_sentence ''fr'' ''spacy_sm'' ''gpt2'')
             \<lparr>content_type := Some ''text'',
              content := Some (text_val [replicate 11 ''a''])\<rparr>, [])"
    using py_join_eleven
    by (simp add: Readability_new_def init_flat[OF flat, folded eleven_tokens_def]
        init_tokens_def ebind_def call_nlp_def blank_def acquire_nlp_def one_sentence_eleven nb)
  show ?thesis
    by (simp add: 1 2 text_of_text_val)
qed

section \<open>The frame of compile\<close>

lemma compile_text_eq:
  "content_type self = Some ''text'' \<Longrightarrow>
   compile syl self =
     ebind (getattr (content self)) (\<lambda>cont.
     ebind (text_statistics syl cont) (\<lambda>st.
       Inr (ReturnsSelf, self\<lparr>statistics := Some st\<rparr>)))"
  by (simp add: compile_def getattr_def ebind_def)

lemma compile_corpus_eq:
  "content_type self = Some ''corpus'' \<Longrightarrow>
   compile syl self =
     ebind (getattr (classes self)) (\<lambda>cls.
     ebind (level_loop syl self cls []) (\<lambda>stats.
       Inr (ReturnsSelf, self\<lparr>corpus_statistics := Some stats\<rparr>)))"
  by (simp add: compile_def getattr_def ebind_def)

lemma compile_unset: "content_type self = None \<Longrightarrow> compile syl self = Inl AttributeError"
  by (simp add: compile_def getattr_def ebind_def)

lemma compile_text_frame:
  assumes ct: "content_type self = Some ''text''"
    and run: "compile syl self = Inr (r, self')"
  shows "r = ReturnsSelf
     \<and> self' = self\<lparr>statistics := statistics self'\<rparr>
     \<and> compile syl self' = Inr (r, self')"
proof -
  from run have "ebind (getattr (content self)) (\<lambda>cont.
     ebind (text_statistics syl cont) (\<lambda>st.
       Inr (ReturnsSelf, self\<lparr>statistics := Some st\<rparr>))) = Inr (r, self')"
    by (simp only: compile_text_eq[OF ct])
  from ebind_Inr[OF this] obtain cont where g: "getattr (content self) = Inr cont"
    and 1: "ebind (text_statistics syl cont) (\<lambda>st.
       Inr (ReturnsSelf, self\<lparr>statistics := Some st\<rparr>)) = Inr (r, self')"
    by blast
  from ebind_Inr[OF 1] obtain st where st: "text_statistics syl cont = Inr st"
    and 2: "Inr (ReturnsSelf, self\<lparr>statistics := Some st\<rparr>) =
        (Inr (r, self') :: error + compile_result \<times> Readability)"
    by blast
  from 2 have res: "r = ReturnsSelf" "self' = self\<lparr>statistics := Some st\<rparr>" by simp_all
  have c: "content self = Some cont" using getattr_Inr[OF g] .
  have ct': "content_type self' = Some ''text''" using ct res by simp
  have "compile syl self' = Inr (r, self')"
    unfolding compile_text_eq[OF ct'] using c st res by (simp add: getattr_def ebind_def)
  then show ?thesis using res by simp
qed

lemma level_loop_content:
  "content self' = content self \<Longrightarrow>
   level_loop syl self' levels stats = level_loop syl self levels stats"
  by (induction levels arbitrary: stats) simp_all

lemma compile_corpus_frame:
  assumes ct: "content_type self = Some ''corpus''"
    and run: "compile syl self = Inr (r, self')"
  shows "r = ReturnsSelf
     \<and> self' = self\<lparr>corpus_statistics := corpus_statistics self'\<rparr>
     \<and> compile syl self' = Inr (r, self')"
proof -
  from run have "ebind (getattr (classes self)) (\<lambda>cls.
     ebind (level_loop syl self cls []) (\<lambda>stats.
       Inr (ReturnsSelf, self\<lparr>corpus_statistics := Some stats\<rparr>))) = Inr (r, self')"
    by (simp only: compile_corpus_eq[OF ct])
  from ebind_Inr[OF this] obtain cls where gk: "getattr (classes self) = Inr cls"
    and 1: "ebind (level_loop syl self cls []) (\<lambda>stats.
       Inr (ReturnsSelf, self\<lparr>corpus_statistics := Some stats\<rparr>)) = Inr (r, self')"
    by blast
  from ebind_Inr[OF 1] obtain stats where st: "level_loop syl self cls [] = Inr stats"
    and 2: "Inr (ReturnsSelf, self\<lparr>corpus_statistics := Some stats\<rparr>) =
        (Inr (r, self') :: error + compile_result \<times> Readability)"
    by blast
  from 2 have res: "r = ReturnsSelf" "self' = self\<lparr>corpus_statistics := Some stats\<rparr>"
    by simp_all
  have k: "classes self = Some cls" using getattr_Inr[OF gk] .
  have ct': "content_type self' = Some ''corpus''" using ct res by simp
  have same: "level_loop syl self' cls [] = level_loop syl self cls []"
    using res by (intro level_loop_content) simp
  have "compile syl self' = Inr (r, self')"
    unfolding compile_corpus_eq[OF ct'] using k st res same
    by (simp add: getattr_def ebind_def)
  then show ?thesis using res by simp
qed

text \<open>What the constructor leaves in the attributes.\<close>

lemma init_content_type:
  assumes "init pipeline cont lang' nlp_name ppl = Inr (self, out)"
  shows "content_type self = None \<or> content_type self = Some ''text''
         \<or> content_type self = Some ''corpus''"
proof (cases cont)
  case PNone
  then show ?thesis using assms by (simp add: init_PNone)
next
  case (PInt i)
  then show ?thesis using assms by (simp add: init_PInt)
next
  case (PStr s)
  then have "init_string (blank pipeline lang' nlp_name ppl) s = Inr (self, out)"
    using assms by (simp add: init_PStr)
  from init_string_Inr[OF this] show ?thesis by auto
next
  case (PList xs)
  show ?thesis
  proof (cases "list_ex is_list xs")
    case True
    then show ?thesis using assms PList by (auto simp: init_nested)
  next
    case False
    then have "init_tokens (blank pipeline lang' nlp_name ppl) (PList xs) = Inr (self, out)"
      using assms PList by (simp add: init_flat)
    from init_tokens_Inr[OF this] show ?thesis by auto
  qed
next
  case (PDict kvs)
  then have "init_corpus (blank pipeline lang' nlp_name ppl) (PDict kvs) = Inr (self, out)"
    using assms by (simp add: init_PDict)
  from init_corpus_Inr[OF this] show ?thesis by (auto simp: blank_def)
qed

lemma init_corpus_canonical:
  assumes "init_corpus self (corpus_val c) = Inr (self', out)"
  shows "self' = self\<lparr>content_type := Some ''corpus'', content := Some (corpus_val c),
                 classes := Some (map fst c)\<rparr>"
proof (cases c)
  case Nil
  then show ?thesis using assms by (simp add: init_corpus_def corpus_val_def)
next
  case (Cons kv rest)
  show ?thesis
  proof (cases "snd kv")
    case Nil
    then show ?thesis using assms Cons by (simp add: init_corpus_def corpus_val_def ebind_def)
  next
    case ts: (Cons t ts')
    show ?thesis
    proof (cases t)
      case Nil
      then show ?thesis
        using assms Cons ts by (simp add: init_corpus_def corpus_val_def text_val_def ebind_def)
    next
      case s: (Cons s ss)
      then show ?thesis
        using assms Cons ts by (auto simp: init_corpus_def corpus_val_def text_val_def ebind_def)
    qed
  qed
qed

lemma init_documented:
  assumes run: "init pipeline cont lang' nlp_name ppl = Inr (self, out)"
    and doc: "documented_input cont"
  shows "(\<exists>t. content_type self = Some ''text'' \<and> content self = Some (text_val t))
       \<or> (\<exists>c. content_type self = Some ''corpus'' \<and> content self = Some (corpus_val c)
              \<and> classes self = Some (map fst c) \<and> distinct (map fst c))"
proof (cases cont)
  case PNone
  then show ?thesis using run by (simp add: init_PNone)
next
  case (PInt i)
  then show ?thesis using run by (simp add: init_PInt)
next
  case (PStr s)
  then have "init_string (blank pipeline lang' nlp_name ppl) s = Inr (self, out)"
    using run by (simp add: init_PStr)
  from init_string_Inr[OF this] show ?thesis by auto
next
  case (PList xs)
  show ?thesis
  proof (cases "list_ex is_list xs")
    case True
    then have nt: "\<not> is_token_list cont"
      using PList by (auto simp: list_ex_iff list_all_iff) (metis is_list.elims(2) is_str.simps(4))
    then have "is_text cont" using doc PList by (simp add: documented_input_def)
    then obtain t where t: "cont = text_val t" using is_text_canonical by blast
    have "init pipeline (PList xs) lang' nlp_name ppl =
        Inr ((blank pipeline lang' nlp_name ppl)
               \<lparr>content_type := Some ''text'', content := Some (PList xs)\<rparr>, [])"
      using True by (rule init_nested)
    then have "content_type self = Some ''text''" and "content self = Some (text_val t)"
      using run PList t by auto
    then show ?thesis by blast
  next
    case False
    then have "init_tokens (blank pipeline lang' nlp_name ppl) (PList xs) = Inr (self, out)"
      using run PList by (simp add: init_flat)
    from init_tokens_Inr[OF this] show ?thesis by auto
  qed
next
  case (PDict kvs)
  then have "is_corpus cont" using doc by (simp add: documented_input_def is_text_def)
  then obtain c where c: "cont = corpus_val c" "distinct (map fst c)"
    using is_corpus_canonical by blast
  have "init_corpus (blank pipeline lang' nlp_name ppl) (corpus_val c) = Inr (self, out)"
    using run PDict c(1) by (simp add: init_PDict)
  from init_corpus_canonical[OF this] show ?thesis using c by auto
qed

text \<open>
  Claim C10, as amended. Let \<open>self\<close> be a session the constructor returned. Whenever
  \<open>compile\<close> returns on it, it returns \<open>self\<close>; the session differs from the one before only in
  \<open>statistics\<close> (content type "text") or only in \<open>corpus_statistics\<close> (content type
  "corpus"), so that \<open>content\<close>, \<open>content_type\<close>, \<open>classes\<close>, \<open>lang\<close> and \<open>nlp\<close> are
  unchanged; and a second \<open>compile\<close> returns the very same session, snapshot included.
  When the content given to the constructor has one of the documented types (a string, a
  list of strings, a list of lists of strings, a dictionary of lists of such texts),
  \<open>compile\<close> does return. On a session built from content of another type it may raise
  instead.
\<close>

theorem compile_frame:
  assumes "init pipeline cont lang' nlp_name ppl = Inr (self, out)"
  shows "(\<forall>r self'. compile syl self = Inr (r, self') \<longrightarrow>
            r = ReturnsSelf
            \<and> (content_type self = Some ''text'' \<or> content_type self = Some ''corpus'')
            \<and> (content_type self = Some ''text'' \<longrightarrow>
                  self' = self\<lparr>statistics := statistics self'\<rparr>)
            \<and> (content_type self = Some ''corpus'' \<longrightarrow>
                  self' = self\<lparr>corpus_statistics := corpus_statistics self'\<rparr>)
            \<and> compile syl self' = Inr (r, self'))
       \<and> (documented_input cont \<longrightarrow> (\<exists>self'. compile syl self = Inr (ReturnsSelf, self')))"
proof (intro conjI allI impI)
  fix r self'
  assume run: "compile syl self = Inr (r, self')"
  have ct: "content_type self = Some ''text'' \<or> content_type self = Some ''corpus''"
    using init_content_type[OF assms] run compile_unset[of self syl] by auto
  then show "content_type self = Some ''text'' \<or> content_type self = Some ''corpus''" .
  from ct show "r = ReturnsSelf"
    using compile_text_frame[OF _ run] compile_corpus_frame[OF _ run] by blast
  from ct show "compile syl self' = Inr (r, self')"
    using compile_text_frame[OF _ run] compile_corpus_frame[OF _ run] by blast
  {
    assume "content_type self = Some ''text''"
    from compile_text_frame[OF this run]
    show "self' = self\<lparr>statistics := statistics self'\<rparr>" by blast
  }
  {
    assume "content_type self = Some ''corpus''"
    from compile_corpus_frame[OF this run]
    show "self' = self\<lparr>corpus_statistics := corpus_statistics self'\<rparr>" by blast
  }
next
  assume "documented_input cont"
  from init_documented[OF assms this]
  show "\<exists>self'. compile syl self = Inr (ReturnsSelf, self')"
    using compile_text_canonical[of self _ syl] compile_corpus_canonical[of self _ syl]
    by blast
qed

theorem compile_frame_witness:
  "init one_sentence (text_val example_text) ''fr'' ''spacy_sm'' ''gpt2'' =
     Inr (text_session one_sentence example_text, [])
   \<and> documented_input (text_val example_text)
   \<and> compile count_vowels (text_session one_sentence example_text) =
       Inr (ReturnsSelf, (text_session one_sentence example_text)
              \<lparr>statistics := Some (aggregate count_vowels example_text)\<rparr>)
   \<and> compile count_vowels ((text_session one_sentence example_text)
              \<lparr>statistics := Some (aggregate count_vowels example_text)\<rparr>) =
       Inr (ReturnsSelf, (text_session one_sentence example_text)
              \<lparr>statistics := Some (aggregate count_vowels example_text)\<rparr>)"
proof -
  have h: "init one_sentence (text_val example_text) ''fr'' ''spacy_sm'' ''gpt2'' =
      Inr (text_session one_sentence example_text, [])"
    using Readability_new_nested[of example_text one_sentence]
    by (simp add: Readability_new_def example_text_def)
  have d: "documented_input (text_val example_text)"
    by (simp add: documented_input_def is_text_text_val)
  have run: "compile count_vowels (text_session one_sentence example_text) =
      Inr (ReturnsSelf, (text_session one_sentence example_text)
             \<lparr>statistics := Some (aggregate count_vowels example_text)\<rparr>)"
    by (rule compile_text_canonical) (simp_all add: text_session_def)
  from compile_frame[OF h, of count_vowels] run
  have "compile count_vowels ((text_session one_sentence example_text)
             \<lparr>statistics := Some (aggregate count_vowels example_text)\<rparr>) =
      Inr (ReturnsSelf, (text_session one_sentence example_text)
             \<lparr>statistics := Some (aggregate count_vowels example_text)\<rparr>)"
    by blast
  then show ?thesis using h d run by simp
qed

text \<open>
  The constructor accepts the list \<open>[[1, 2]]\<close>, whose sentence holds numbers, and
  stores it as it is; \<open>compile\<close> on that session raises TypeError at \<open>len(token)\<close>
  and returns nothing.
\<close>

theorem compile_raises_counterexample:
  "map_sum id (\<lambda>r. (content_type (fst r), compile count_vowels (fst r)))
     (Readability_new one_sentence number_sentence) = Inr (Some ''text'', Inl TypeError)"
  by (simp add: Readability_new_def number_sentence_def init_nested compile_def getattr_def
      text_statistics_def sentence_step_def ebind_def)

section \<open>Scoring a session\<close>

lemma select_func_names:
  "name \<in> {''gfi'', ''ari'', ''fre'', ''fkgl'', ''smog'', ''rel''} \<Longrightarrow>
   \<exists>f. select_func k name = Some f"
  by (auto simp: select_func_def)

lemma dual_mode_snapshot: "dual_mode f syl text (Some st) = Inr (guarded f st)"
  by (simp add: dual_mode_def)

lemma dual_mode_canonical:
  "dual_mode f syl (text_val t) None = Inr (guarded f (aggregate syl t))"
  by (simp add: dual_mode_def text_of_text_val)








text \<open>
  Claim C3 at a corpus session, compiled or not: the dedicated accessors \<open>ari\<close>, \<open>fre\<close>,
  \<open>fkgl\<close>, \<open>smog\<close> and \<open>rel\<close> return the integer \<open>-1\<close>, not a mapping from class to
  scores.
\<close>

theorem accessors_on_corpus:
  "content_type self = Some ''corpus'' \<longrightarrow>
     ari syl self = Inr (IntCode (- 1)) \<and> fre syl self = Inr (IntCode (- 1))
     \<and> fkgl syl self = Inr (IntCode (- 1)) \<and> smog syl self = Inr (IntCode (- 1))
     \<and> rel k syl self = Inr (IntCode (- 1))"
  by (simp add: ari_def fre_def fkgl_def smog_def rel_def text_only_accessor_def getattr_def
      ebind_def)

theorem accessors_on_corpus_witness:
  "ari count_vowels (corpus_session one_sentence example_corpus) = Inr (IntCode (- 1))
   \<and> fre count_vowels (corpus_session one_sentence example_corpus) = Inr (IntCode (- 1))
   \<and> fkgl count_vowels (corpus_session one_sentence example_corpus) = Inr (IntCode (- 1))
   \<and> smog count_vowels (corpus_session one_sentence example_corpus) = Inr (IntCode (- 1))
   \<and> rel (207, 1.015, 73.6) count_vowels (corpus_session one_sentence example_corpus) =
       Inr (IntCode (- 1))"
  using accessors_on_corpus[of "corpus_session one_sentence example_corpus" count_vowels
      "(207, 1.015, 73.6)"]
  by (simp add: corpus_session_def)

section \<open>The diversity ratios\<close>

lemma nb_distinct_le: "nb_distinct xs \<le> length xs"
  by (simp add: nb_distinct_def length_remdups_leq)

lemma nb_distinct_pos: "xs \<noteq> [] \<Longrightarrow> 0 < nb_distinct xs"
  by (simp add: nb_distinct_def)

lemma sqrt_le_self:
  assumes "1 \<le> (x::real)"
  shows "sqrt x \<le> x"
proof -
  have "1 \<le> sqrt x" using assms by simp
  then have "sqrt x * 1 \<le> sqrt x * sqrt x" by (intro mult_left_mono) auto
  then show ?thesis using assms by simp
qed

lemma type_token_ratio_nonempty:
  assumes "convert text = Inr doc" and "py_split (strip_punctuation doc) \<noteq> []"
  shows "type_token_ratio convert text mode =
           Inr (mode_ratio (nb_distinct (py_split (strip_punctuation doc)))
                  (length (py_split (strip_punctuation doc))) mode, [])"
  using assms by (simp add: type_token_ratio_def ebind_def Let_def)

lemma type_token_ratio_nested_nonempty:
  assumes "convert text = Inr doc" and "py_split (strip_punctuation doc) \<noteq> []"
  shows "type_token_ratio_nested convert text mode =
           Inr (mode_ratio (nb_distinct (py_split (strip_punctuation doc)))
                  (length (py_split (strip_punctuation doc))) mode, [])"
  using assms by (simp add: type_token_ratio_nested_def ebind_def Let_def)

lemma mode_ratio_default:
  "mode \<noteq> Some ''corrected'' \<Longrightarrow> mode \<noteq> Some ''root'' \<Longrightarrow>
   mode_ratio u n mode = real u / real n"
  by (simp add: mode_ratio_def)

lemma mode_ratio_root: "mode_ratio u n (Some ''root'') = real u / sqrt (real n)"
  by (simp add: mode_ratio_def)

lemma mode_ratio_corrected: "mode_ratio u n (Some ''corrected'') = real u / sqrt (2 * real n)"
  by (simp add: mode_ratio_def)

lemma ratio_bounds:
  assumes "0 < u" and "u \<le> n"
  shows "0 < real u / real n" and "real u / real n \<le> 1"
    and "real u / real n \<le> real u / sqrt (real n)"
proof -
  have n: "0 < n" using assms by simp
  show "0 < real u / real n" using assms n by simp
  show "real u / real n \<le> 1" using assms n by simp
  have "1 \<le> real n" using n by simp
  then have "sqrt (real n) \<le> real n" by (rule sqrt_le_self)
  moreover have "0 < sqrt (real n)" using n by simp
  ultimately show "real u / real n \<le> real u / sqrt (real n)"
    by (intro divide_left_mono) (simp_all add: n)
qed

text \<open>
  Claim C8. Let the text convert to a string whose punctuation-stripped whitespace split
  has \<open>n \<ge> 1\<close> tokens, \<open>u\<close> of them distinct. Then \<open>type_token_ratio\<close>, in either
  file, returns \<open>u / n\<close> in the default mode (any mode but "root" and "corrected"),
  \<open>u / sqrt n\<close> in mode "root" and \<open>u / sqrt (2 n)\<close> in mode "corrected", with no
  warning; \<open>0 < u / n \<le> 1\<close>; and the "root" value is at least the default value
  (for every \<open>n \<ge> 1\<close>, so in particular for \<open>n > 1\<close>). Floats are read as real numbers;
  the split cuts at every whitespace character of \<open>str.split()\<close>, the no-break space
  included.
\<close>

theorem type_token_ratio_values:
  assumes "convert text = Inr doc"
    and "toks = py_split (strip_punctuation doc)"
    and "n = length toks" and "u = nb_distinct toks" and "1 \<le> n"
    and "mode \<noteq> Some ''corrected''" and "mode \<noteq> Some ''root''"
  shows "type_token_ratio convert text mode = Inr (real u / real n, [])
       \<and> type_token_ratio convert text (Some ''root'') = Inr (real u / sqrt (real n), [])
       \<and> type_token_ratio convert text (Some ''corrected'') =
           Inr (real u / sqrt (2 * real n), [])
       \<and> type_token_ratio_nested convert text mode = Inr (real u / real n, [])
       \<and> type_token_ratio_nested convert text (Some ''root'') =
           Inr (real u / sqrt (real n), [])
       \<and> type_token_ratio_nested convert text (Some ''corrected'') =
           Inr (real u / sqrt (2 * real n), [])
       \<and> 0 < real u / real n \<and> real u / real n \<le> 1
       \<and> real u / real n \<le> real u / sqrt (real n)"
proof -
  have ne: "py_split (strip_punctuation doc) \<noteq> []" using assms(2,3,5) by auto
  have u: "0 < u" "u \<le> n"
    using assms(2,3,4) ne nb_distinct_pos[of toks] nb_distinct_le[of toks] by simp_all
  have a: "\<And>m. type_token_ratio convert text m = Inr (mode_ratio u n m, [])"
    using type_token_ratio_nonempty[of convert "text" doc, OF assms(1) ne] assms(2,3,4)
    by simp
  have b: "\<And>m. type_token_ratio_nested convert text m = Inr (mode_ratio u n m, [])"
    using type_token_ratio_nested_nonempty[of convert "text" doc, OF assms(1) ne]
      assms(2,3,4)
    by simp
  show ?thesis
    using ratio_bounds[OF u] mode_ratio_default[OF assms(6,7)]
    by (simp add: a b mode_ratio_root mode_ratio_corrected)
qed

lemma py_split_example: "py_split (strip_punctuation ''le chat, le chien.'') =
    [''le'', ''chat'', ''le'', ''chien'']"
  by (simp add: py_split_def strip_punctuation_def is_whitespace_def is_punctuation_def)

lemma py_split_nbsp:
  "py_split (strip_punctuation
      [CHR ''l'', CHR ''e'', CHR 0xA0, CHR ''c'', CHR ''h'', CHR ''a'', CHR ''t'']) =
    [''le'', ''chat'']"
  by (simp add: py_split_def strip_punctuation_def is_whitespace_def is_punctuation_def)

theorem type_token_ratio_values_witness:
  "type_token_ratio text_to_doc (PStr ''le chat, le chien.'') None = Inr (3 / 4, [])
   \<and> type_token_ratio text_to_doc (PStr ''le chat, le chien.'') (Some ''root'') =
       Inr (3 / sqrt 4, [])
   \<and> type_token_ratio_nested text_to_doc (PStr ''le chat, le chien.'') (Some ''corrected'') =
       Inr (3 / sqrt (2 * 4), [])
   \<and> (0::real) < 3 / 4 \<and> (3::real) / 4 \<le> 1 \<and> (3::real) / 4 \<le> 3 / sqrt 4
   \<and> type_token_ratio text_to_doc nbsp_text None = Inr (2 / 2, [])
   \<and> type_token_ratio text_to_doc nbsp_text (Some ''root'') = Inr (2 / sqrt 2, [])"
  using type_token_ratio_values[of text_to_doc "PStr ''le chat, le chien.''"
      "''le chat, le chien.''" "[''le'', ''chat'', ''le'', ''chien'']" 4 3 None]
    type_token_ratio_values[of text_to_doc nbsp_text
      "[CHR ''l'', CHR ''e'', CHR 0xA0, CHR ''c'', CHR ''h'', CHR ''a'', CHR ''t'']"
      "[''le'', ''chat'']" 2 2 None]
  by (simp add: text_to_doc_def py_split_example py_split_nbsp nb_distinct_def nbsp_text_def)

lemma py_split_empty: "py_split (strip_punctuation []) = []"
  by (simp add: py_split_def strip_punctuation_def)

text \<open>
  Claim C9 at the empty text: every function warns, but the functions of
  \<open>readability/stats/diversity.py\<close> return \<open>-1\<close> and those of
  \<open>readability/readability/stats/diversity.py\<close> return \<open>0\<close>.
\<close>

theorem empty_text_sentinels:
  "type_token_ratio text_to_doc (PStr []) mode = Inr (- 1, [warning_ttr])
   \<and> noun_token_ratio (PStr []) (Some all_nouns) mode = Inr (- 1, [warning_ntr])
   \<and> type_token_ratio_nested text_to_doc (PStr []) mode = Inr (0, [warning_ttr_nested])
   \<and> noun_token_ratio_nested text_to_doc (PStr []) (Some all_nouns) mode =
       Inr (0, [warning_ntr_nested])"
  by (simp add: type_token_ratio_def type_token_ratio_nested_def noun_token_ratio_def
      noun_token_ratio_nested_def text_to_doc_def ebind_def py_split_empty call_tagger_def
      all_nouns_def nouns_of_def py_split_def strip_punctuation_def Let_def)

section \<open>Further properties of the session\<close>

lemma length_concat_int: "int (length (concat t)) = sum_list (map (\<lambda>s. int (length s)) t)"
  by (induction t) simp_all

text \<open>
  On a canonical Text the snapshot computed by \<open>compile\<close> has no more polysyllabic words
  and no more long words than words.
\<close>

theorem snapshot_bounds:
  "map_sum id (\<lambda>st. nbPolysyllables st \<le> totalWords st \<and> totalLongWords st \<le> totalWords st)
     (text_statistics syl (text_val t)) = Inr True"
proof -
  have w: "totalWords (aggregate syl t) = int (length (concat t))"
    by (simp add: aggregate_def length_concat_int)
  have "nbPolysyllables (aggregate syl t) \<le> int (length (concat t))"
    and "totalLongWords (aggregate syl t) \<le> int (length (concat t))"
    by (simp_all add: aggregate_def)
  then show ?thesis by (simp add: text_statistics_canonical w)
qed

lemma nb_words_tokens_squares:
  "nb_words_tokens sentences =
     sum_list (map (\<lambda>sentence. int (length sentence) * int (length sentence)) sentences)"
  by (simp add: nb_words_tokens_def sum_list_replicate_const)

text \<open>
  When the two string-segmenting branches print their warning. For a string \<open>s\<close> the
  warning is printed exactly when the words of the segmentation number less than 101;
  for a flat token list, exactly when the squares of the sentence lengths of the
  segmentation sum to less than 101.
\<close>

theorem warning_conditions:
  "(init pipeline (PStr s) lang' nlp_name ppl = Inr (self, out) \<longrightarrow>
      (\<exists>f. nlp self = Some f \<and> content self = Some (text_val (f s))
          \<and> (out = [warning_string]) = (sum_list (map (\<lambda>x. int (length x)) (f s)) < 101)
          \<and> (out = []) = (\<not> sum_list (map (\<lambda>x. int (length x)) (f s)) < 101)))
   \<and> (\<not> list_ex is_list xs \<and> init pipeline (PList xs) lang' nlp_name ppl = Inr (self, out) \<longrightarrow>
      (\<exists>f joined. nlp self = Some f \<and> py_join (PList xs) = Inr joined
          \<and> content self = Some (text_val (f joined))
          \<and> (out = [warning_tokens]) =
              (sum_list (map (\<lambda>x. int (length x) * int (length x)) (f joined)) < 101)
          \<and> (out = []) =
              (\<not> sum_list (map (\<lambda>x. int (length x) * int (length x)) (f joined)) < 101)))"
proof (intro conjI impI)
  assume "init pipeline (PStr s) lang' nlp_name ppl = Inr (self, out)"
  then have "init_string (blank pipeline lang' nlp_name ppl) s = Inr (self, out)"
    by (simp add: init_PStr)
  from init_string_Inr[OF this] obtain f where
    f: "nlp (blank pipeline lang' nlp_name ppl) = Some f"
      "self = (blank pipeline lang' nlp_name ppl)
         \<lparr>content_type := Some ''text'', content := Some (text_val (f s))\<rparr>"
      "out = (if nb_words_string (f s) < 101 then [warning_string] else [])"
    by blast
  have "nlp self = Some f" "content self = Some (text_val (f s))" using f(1,2) by simp_all
  then show "\<exists>f. nlp self = Some f \<and> content self = Some (text_val (f s))
          \<and> (out = [warning_string]) = (sum_list (map (\<lambda>x. int (length x)) (f s)) < 101)
          \<and> (out = []) = (\<not> sum_list (map (\<lambda>x. int (length x)) (f s)) < 101)"
    using f(3) by (intro exI[of _ f]) (simp add: nb_words_string_def)
next
  assume a: "\<not> list_ex is_list xs \<and> init pipeline (PList xs) lang' nlp_name ppl = Inr (self, out)"
  then have n: "\<not> list_ex is_list xs"
    and i: "init pipeline (PList xs) lang' nlp_name ppl = Inr (self, out)"
    by blast+
  have "init_tokens (blank pipeline lang' nlp_name ppl) (PList xs) = Inr (self, out)"
    using i by (simp add: init_flat[OF n])
  from init_tokens_Inr[OF this] obtain f joined where
    f: "nlp (blank pipeline lang' nlp_name ppl) = Some f" "py_join (PList xs) = Inr joined"
      "self = (blank pipeline lang' nlp_name ppl)
         \<lparr>content_type := Some ''text'', content := Some (text_val (f joined))\<rparr>"
      "out = (if nb_words_tokens (f joined) < 101 then [warning_tokens] else [])"
    by blast
  have "nlp self = Some f" "content self = Some (text_val (f joined))" using f(1,3) by simp_all
  then show "\<exists>f joined. nlp self = Some f \<and> py_join (PList xs) = Inr joined
          \<and> content self = Some (text_val (f joined))
          \<and> (out = [warning_tokens]) =
              (sum_list (map (\<lambda>x. int (length x) * int (length x)) (f joined)) < 101)
          \<and> (out = []) =
              (\<not> sum_list (map (\<lambda>x. int (length x) * int (length x)) (f joined)) < 101)"
    using f(2,4) by (intro exI[of _ f] exI[of _ joined]) (simp add: nb_words_tokens_squares)
qed

theorem warning_conditions_witness:
  "init one_sentence (PList [PStr ''Le'', PStr ''chat'']) ''fr'' ''spacy_sm'' ''gpt2'' =
     Inr (text_session one_sentence [[''Le'', ''chat'']], [warning_tokens])
   \<and> (\<exists>f joined. nlp (text_session one_sentence [[''Le'', ''chat'']]) = Some f
        \<and> py_join (PList [PStr ''Le'', PStr ''chat'']) = Inr joined
        \<and> ([warning_tokens] = [warning_tokens]) =
            (sum_list (map (\<lambda>x. int (length x) * int (length x)) (f joined)) < 101))"
proof -
  have flat: "\<not> list_ex is_list [PStr ''Le'', PStr ''chat'']" by simp
  from warning_conditions[of one_sentence _ "''fr''" "''spacy_sm''" "''gpt2''"
      "text_session one_sentence [[''Le'', ''chat'']]" "[warning_tokens]"
      "[PStr ''Le'', PStr ''chat'']"] flat init_Le_chat
  show ?thesis by blast
qed

text \<open>
  A dictionary whose first value fails one of the three nested tests leaves the
  constructor with nothing assigned.
\<close>

theorem dict_fall_through:
  "(\<not> is_list v \<longrightarrow>
      init pipeline (PDict ((k, v) # rest)) lang' nlp_name ppl =
        Inr (blank pipeline lang' nlp_name ppl, []))
   \<and> (\<not> is_list t \<longrightarrow>
      init pipeline (PDict ((k, PList (t # ts)) # rest)) lang' nlp_name ppl =
        Inr (blank pipeline lang' nlp_name ppl, []))
   \<and> (\<not> is_list s \<longrightarrow>
      init pipeline (PDict ((k, PList (PList (s # ss) # ts)) # rest)) lang' nlp_name ppl =
        Inr (blank pipeline lang' nlp_name ppl, []))"
  by (simp add: init_PDict init_corpus_def ebind_def)

theorem dict_fall_through_witness:
  "init one_sentence (PDict [(''A'', PStr ''un texte'')]) ''fr'' ''spacy_sm'' ''gpt2'' =
     Inr (blank one_sentence ''fr'' ''spacy_sm'' ''gpt2'', [])
   \<and> init one_sentence (PDict [(''A'', PList [PStr ''un texte''])]) ''fr'' ''spacy_sm'' ''gpt2'' =
     Inr (blank one_sentence ''fr'' ''spacy_sm'' ''gpt2'', [])
   \<and> init one_sentence (PDict [(''A'', PList [PList [PStr ''un'', PStr ''texte'']])])
       ''fr'' ''spacy_sm'' ''gpt2'' =
     Inr (blank one_sentence ''fr'' ''spacy_sm'' ''gpt2'', [])"
  using dict_fall_through[of "PStr ''un texte''" one_sentence "''A''" "[]" "''fr''"
      "''spacy_sm''" "''gpt2''" "PStr ''un texte''" "[]" "PStr ''un''" "[PStr ''texte'']"]
  by simp

section \<open>Bulk scoring of a corpus\<close>

lemma ebind_return: "ebind (Inr x) f = f x"
  by (simp add: ebind_def)

lemma map_of_aggregate_corpus:
  "map_of c k = Some ts \<Longrightarrow>
   map_of (aggregate_corpus syl c) k = Some (map (aggregate syl) ts)"
  by (induction c) (auto simp: aggregate_corpus_def)

lemma emap_snapshots:
  "emap (\<lambda>st. ebind (use_func (Some f)) (\<lambda>g. dual_mode g syl PNone (Some st))) sts =
     Inr (map (guarded f) sts)"
  by (induction sts) (simp_all add: ebind_def use_func_def dual_mode_snapshot)

lemma emap_texts:
  "emap (\<lambda>text. ebind (use_func (Some f)) (\<lambda>g. dual_mode g syl text None)) (map text_val ts) =
     Inr (map (\<lambda>t. guarded f (aggregate syl t)) ts)"
  by (induction ts) (simp_all add: ebind_def use_func_def dual_mode_canonical)

lemma level_scores_compiled:
  "corpus_statistics self = Some (aggregate_corpus syl c) \<Longrightarrow> map_of c level = Some ts \<Longrightarrow>
   level_scores (Some f) syl self level = Inr (map (\<lambda>t. guarded f (aggregate syl t)) ts)"
  by (simp add: level_scores_def map_of_aggregate_corpus emap_snapshots o_def)

lemma level_scores_uncompiled:
  "corpus_statistics self = None \<Longrightarrow> content self = Some (corpus_val c) \<Longrightarrow>
   map_of c level = Some ts \<Longrightarrow>
   level_scores (Some f) syl self level = Inr (map (\<lambda>t. guarded f (aggregate syl t)) ts)"
  by (simp add: level_scores_def getattr_def ebind_return py_getitem_corpus_val emap_texts)

lemma score_levels_canonical:
  "distinct (map fst pre @ map fst todo) \<Longrightarrow>
   (\<And>level ts. (level, ts) \<in> set todo \<Longrightarrow> level_scores func syl self level = Inr (h ts)) \<Longrightarrow>
   score_levels func syl self (map fst todo) (map (\<lambda>kv. (fst kv, h (snd kv))) pre) =
     Inr (map (\<lambda>kv. (fst kv, h (snd kv))) (pre @ todo))"
proof (induction todo arbitrary: pre)
  case Nil
  show ?case by simp
next
  case (Cons kv todo)
  obtain level ts where kv: "kv = (level, ts)" by (cases kv)
  have one: "level_scores func syl self level = Inr (h ts)"
    using Cons.prems(2) kv by simp
  have fresh: "level \<notin> fst ` set (map (\<lambda>kv. (fst kv, h (snd kv))) pre)"
    using Cons.prems(1) kv by (force simp: image_iff)
  have step: "dict_set (map (\<lambda>kv. (fst kv, h (snd kv))) pre) level (h ts) =
      map (\<lambda>kv. (fst kv, h (snd kv))) (pre @ [kv])"
    using dict_set_fresh[OF fresh] kv by simp
  have d: "distinct (map fst (pre @ [kv]) @ map fst todo)"
    using Cons.prems(1) by simp
  have rest: "\<And>level ts. (level, ts) \<in> set todo \<Longrightarrow>
      level_scores func syl self level = Inr (h ts)"
    using Cons.prems(2) by simp
  show ?case
    using Cons.IH[OF d rest] one step kv by (simp add: ebind_def)
qed

lemma score_with_corpus:
  assumes ct: "content_type self = Some ''corpus''"
    and cont: "content self = Some (corpus_val c)"
    and cls: "classes self = Some (map fst c)"
    and d: "distinct (map fst c)"
    and st: "corpus_statistics self = None
             \<or> corpus_statistics self = Some (aggregate_corpus syl c)"
  shows "score_with (Some f) syl self =
     Inr (PerClass (map (\<lambda>kv. (fst kv, map (\<lambda>t. guarded f (aggregate syl t)) (snd kv))) c))"
proof -
  have look: "\<And>level ts. (level, ts) \<in> set c \<Longrightarrow> map_of c level = Some ts"
    using d by simp
  have each: "\<And>level ts. (level, ts) \<in> set c \<Longrightarrow>
      level_scores (Some f) syl self level = Inr (map (\<lambda>t. guarded f (aggregate syl t)) ts)"
    using st level_scores_compiled[of self syl c] level_scores_uncompiled[OF _ cont] look
    by blast
  have "score_levels (Some f) syl self (map fst c) [] =
      Inr (map (\<lambda>kv. (fst kv, map (\<lambda>t. guarded f (aggregate syl t)) (snd kv))) c)"
    using score_levels_canonical[of "[]" c "Some f" syl self
        "map (\<lambda>t. guarded f (aggregate syl t))"] d each
    by simp
  then show ?thesis
    using ct cls by (simp add: score_with_def getattr_def ebind_def)
qed

text \<open>
  On a session whose content is a canonical corpus, compiled or not, \<open>score(name)\<close> with
  one of the six names and \<open>gfi()\<close> return a mapping with the classes of the session as
  its keys, in their order, each with the scores of the texts of the class in the order of
  the texts.
\<close>

theorem score_on_corpus:
  assumes "content_type self = Some ''corpus''"
    and "content self = Some (corpus_val c)"
    and "classes self = Some (map fst c)"
    and "distinct (map fst c)"
    and "corpus_statistics self = None
         \<or> corpus_statistics self = Some (aggregate_corpus syl c)"
    and "name \<in> {''gfi'', ''ari'', ''fre'', ''fkgl'', ''smog'', ''rel''}"
  shows "\<exists>f. select_func k name = Some f
         \<and> score k syl self name =
             Inr (PerClass (map (\<lambda>kv. (fst kv, map (\<lambda>t. guarded f (aggregate syl t)) (snd kv))) c))
         \<and> gfi syl self =
             Inr (PerClass (map (\<lambda>kv. (fst kv, map (\<lambda>t. guarded GFI_formula (aggregate syl t))
                                                (snd kv))) c))"
proof -
  from select_func_names[OF assms(6)] obtain f where f: "select_func k name = Some f"
    by blast
  show ?thesis
    using f score_with_corpus[OF assms(1-5)]
    by (intro exI[of _ f]) (simp add: score_def gfi_def)
qed

theorem score_on_corpus_witness:
  "\<exists>f. select_func (207, 1.015, 73.6) ''ari'' = Some f
     \<and> score (207, 1.015, 73.6) count_vowels (corpus_session one_sentence example_corpus) ''ari'' =
         Inr (PerClass (map (\<lambda>kv. (fst kv, map (\<lambda>t. guarded f (aggregate count_vowels t)) (snd kv)))
                example_corpus))
     \<and> gfi count_vowels (corpus_session one_sentence example_corpus) =
         Inr (PerClass (map (\<lambda>kv. (fst kv, map (\<lambda>t. guarded GFI_formula (aggregate count_vowels t))
                                            (snd kv))) example_corpus))"
  by (rule score_on_corpus) (simp_all add: corpus_session_def example_corpus_def)

end
